theory Spec2Isabelle
  imports Main
begin

section \<open>JavaScript values as the handlers see them\<close>

text \<open>
  The inbound payload (\<open>req.body\<close>) and every store response are parsed JSON. A JSON value
  is \<open>null\<close>, a boolean, a number, a string, an array or an object; \<open>JUndefined\<close> is what
  reading a missing property gives. Strings are lists of code units below 256. An object
  is the list of its entries, looked up by key.

  A number is kept as the text that \<open>String\<close> prints for it (\<open>Number::toString\<close> of
  ECMAScript), which determines the number up to the sign of zero: one half is
  \<open>JNum ''0.5''\<close>, ten to the power 21 is \<open>JNum ''1e+21''\<close>, and both zeros are
  \<open>JNum ''0''\<close>. The handlers never calculate with a number of the payload or of a
  response: they print it, test it with \<open>!!\<close> or \<open>typeof\<close>, or pass it on.
\<close>

datatype jsval =
    JUndefined
  | JNull
  | JBool bool
  | JNum string
  | JStr string
  | JArr "jsval list"
  | JObj "(string \<times> jsval) list"

text \<open>
  What a handler can catch: \<open>fetch\<close> rejects, \<open>r.json()\<close> throws, \<open>gql\<close> throws its
  \<open>Shopify GraphQL error\<close> (with the \<open>errors\<close> of the body or the status as message), or
  the runtime throws a \<open>TypeError\<close>.
\<close>

datatype gql_msg = ErrorsJson jsval | HttpStatus nat

datatype error = FetchRejected | BodyNotJson | ShopifyGraphQLError gql_msg | TypeError

text \<open>
  \<open>!!v\<close>: the falsy values are \<open>undefined\<close>, \<open>null\<close>, \<open>false\<close>, the numbers \<open>0\<close>, \<open>-0\<close> and
  \<open>NaN\<close>, and \<open>""\<close>.
\<close>

fun truthy :: "jsval \<Rightarrow> bool" where
  "truthy JUndefined = False"
| "truthy JNull = False"
| "truthy (JBool b) = b"
| "truthy (JNum n) = (n \<noteq> ''0'' \<and> n \<noteq> ''NaN'')"
| "truthy (JStr s) = (s \<noteq> [])"
| "truthy (JArr xs) = True"
| "truthy (JObj kvs) = True"

text \<open>\<open>v === undefined || v === null\<close>, the test behind \<open>?.\<close> and \<open>??\<close>.\<close>

fun nullish :: "jsval \<Rightarrow> bool" where
  "nullish JUndefined = True"
| "nullish JNull = True"
| "nullish _ = False"

text \<open>
  \<open>v?.[k]\<close> for a string key \<open>k\<close>. Only an object parsed from JSON has own properties
  under the keys the handlers read; on \<open>undefined\<close> and \<open>null\<close> the optional chain gives
  \<open>undefined\<close>, and so does a key that a string, number, boolean or array does not have.
  No key the handlers read names a property that an object, array or string inherits.
\<close>

fun get_prop :: "jsval \<Rightarrow> string \<Rightarrow> jsval" where
  "get_prop (JObj kvs) k = (case map_of kvs k of None \<Rightarrow> JUndefined | Some v \<Rightarrow> v)"
| "get_prop _ k = JUndefined"

text \<open>\<open>v?.[0]\<close>: the first element of an array, the first character of a string.\<close>

fun index0 :: "jsval \<Rightarrow> jsval" where
  "index0 (JArr xs) = (case xs of [] \<Rightarrow> JUndefined | x # _ \<Rightarrow> x)"
| "index0 (JStr s) = (case s of [] \<Rightarrow> JUndefined | c # _ \<Rightarrow> JStr [c])"
| "index0 (JObj kvs) = get_prop (JObj kvs) ''0''"
| "index0 _ = JUndefined"

subsection \<open>Strings\<close>

text \<open>Decimal digits of a natural number, as \<open>String\<close> prints a length or a count.\<close>

fun digits :: "nat \<Rightarrow> string" where
  "digits n = (if n < 10 then [char_of (48 + n)] else digits (n div 10) @ [char_of (48 + n mod 10)])"

text \<open>\<open>v?.length\<close>: the number of elements of an array, of code units of a string.\<close>

fun js_length :: "jsval \<Rightarrow> jsval" where
  "js_length (JArr xs) = JNum (digits (length xs))"
| "js_length (JStr s) = JNum (digits (length s))"
| "js_length (JObj kvs) = get_prop (JObj kvs) ''length''"
| "js_length _ = JUndefined"

text \<open>\<open>xs.join(",")\<close> on strings.\<close>

fun join_comma :: "string list \<Rightarrow> string" where
  "join_comma [] = []"
| "join_comma [s] = s"
| "join_comma (s # t # ts) = s @ CHR '','' # join_comma (t # ts)"

text \<open>The strings of a list of conversions, or the error of the first that threw.\<close>

fun all_strings :: "(error + string) list \<Rightarrow> error + string list" where
  "all_strings [] = Inr []"
| "all_strings (Inl e # rs) = Inl e"
| "all_strings (Inr s # rs) = (case all_strings rs of Inl e \<Rightarrow> Inl e | Inr ss \<Rightarrow> Inr (s # ss))"

text \<open>
  \<open>String(v)\<close>. A parsed object prints as \<open>[object Object]\<close> through the \<open>toString\<close> it
  inherits; when it has a \<open>toString\<close> entry of its own, that entry is not a function and
  \<open>valueOf\<close> gives no primitive value either, so the conversion throws a \<open>TypeError\<close>. An
  array prints its elements joined by commas, \<open>null\<close> and \<open>undefined\<close> elements as the
  empty string, and throws when the conversion of an element does.
\<close>

fun to_String :: "jsval \<Rightarrow> error + string" where
  "to_String JUndefined = Inr ''undefined''"
| "to_String JNull = Inr ''null''"
| "to_String (JBool b) = Inr (if b then ''true'' else ''false'')"
| "to_String (JNum n) = Inr n"
| "to_String (JStr s) = Inr s"
| "to_String (JArr xs) =
     (case all_strings (map (\<lambda>x. if nullish x then Inr [] else to_String x) xs) of
        Inl e \<Rightarrow> Inl e
      | Inr ss \<Rightarrow> Inr (join_comma ss))"
| "to_String (JObj kvs) =
     (if map_of kvs ''toString'' \<noteq> None then Inl TypeError else Inr ''[object Object]'')"

text \<open>
  White space as \<open>String.prototype.trim\<close> strips it, among code units below 256: tab, line
  feed, vertical tab, form feed, carriage return, space and no-break space.
\<close>

definition is_space :: "char \<Rightarrow> bool" where
  "is_space c = ((of_char c :: nat) \<in> {9, 10, 11, 12, 13, 32, 160})"

definition trim :: "string \<Rightarrow> string" where
  "trim s = rev (dropWhile is_space (rev (dropWhile is_space s)))"

text \<open>
  \<open>toLowerCase\<close> on one code unit below 256: \<open>A\<close>..\<open>Z\<close> and the accented capitals
  \<open>0xC0\<close>..\<open>0xDE\<close> (but not the multiplication sign \<open>0xD7\<close>) move up by 32.
\<close>

definition lower_char :: "char \<Rightarrow> char" where
  "lower_char c =
     (let n = (of_char c :: nat)
      in if (65 \<le> n \<and> n \<le> 90) \<or> (192 \<le> n \<and> n \<le> 222 \<and> n \<noteq> 215) then char_of (n + 32) else c)"

definition toLowerCase :: "string \<Rightarrow> string" where
  "toLowerCase s = map lower_char s"

text \<open>The test \<open>/^https?:\/\//.test(u)\<close>: the string starts with \<open>http://\<close> or \<open>https://\<close>.\<close>

definition is_http :: "string \<Rightarrow> bool" where
  "is_http u = (take 7 u = ''http://'' \<or> take 8 u = ''https://'')"

text \<open>\<open>s.split(",")\<close>: the pieces between commas; a string without a comma is one piece.\<close>

fun split_comma :: "string \<Rightarrow> string list" where
  "split_comma [] = [[]]"
| "split_comma (c # cs) =
     (if c = CHR '','' then [] # split_comma cs
      else (case split_comma cs of [] \<Rightarrow> [[c]] | p # ps \<Rightarrow> (c # p) # ps))"

section \<open>The record handler (api/cognito-shopify.ts)\<close>

subsection \<open>The store\<close>

text \<open>
  A field of the \<open>fields\<close> list sent with the upsert. Its value is a string, the id of an
  uploaded file as the store returned it, or the list of such ids that the handler sends
  as \<open>JSON.stringify(fileIds)\<close>.
\<close>

datatype mvalue = VStr string | VId jsval | VIds "jsval list"

record mfield =
  mf_key :: string
  mf_value :: mvalue
  mf_type :: "string option"

datatype publish = ACTIVE | DRAFT

text \<open>A field definition of the catalog \<open>FIELDS\<close>, and as sent to the store.\<close>

record field_def =
  fd_name :: string
  fd_key :: string
  fd_type :: string
  fd_required :: "bool option"
  fd_validations :: "string list option"

text \<open>
  The GraphQL calls of the two handlers, each with its variables: \<open>fileCreate\<close> of one
  external URL, \<open>UPSERT\<close> (handle, name, fields, status), \<open>GET_DEFINITION\<close> of a type,
  \<open>CREATE_DEFINITION\<close> (the field definitions) and \<open>UPDATE_DEFINITION\<close> (id, fields to
  create, fields to update).
\<close>

datatype request =
    FileCreate string
  | UpsertAnimal string string "mfield list" publish
  | GetDefinition string
  | CreateDefinition "field_def list"
  | UpdateDefinition jsval "field_def list" "field_def list"

text \<open>
  What \<open>fetch\<close> gives: the promise rejects, or there is a response with a status and a
  body, which \<open>r.json()\<close> parses (\<open>None\<close>: the body is not JSON and \<open>r.json()\<close> throws).
\<close>

datatype fetch_result = Rejected | Response nat "jsval option"

text \<open>\<open>r.ok\<close>: the status is in the range 200 to 299.\<close>

definition ok :: "nat \<Rightarrow> bool" where
  "ok status = (200 \<le> status \<and> status \<le> 299)"

text \<open>
  The store is outside the program: any function from its state and a request to a
  response and its next state. The world a handler runs in is the list of the requests
  sent so far and the state of the store.
\<close>

type_synonym 's store = "'s \<Rightarrow> request \<Rightarrow> fetch_result \<times> 's"
type_synonym 's world = "request list \<times> 's"

text \<open>
  Lines 21 to 26 of \<open>gql\<close>: the body is parsed first, then a response that is not \<open>ok\<close>
  throws, with the \<open>errors\<close> of the body as message when they are truthy and the status
  otherwise; an \<open>ok\<close> response returns the parsed body as it is.
\<close>

fun gql_result :: "fetch_result \<Rightarrow> error + jsval" where
  "gql_result Rejected = Inl FetchRejected"
| "gql_result (Response status None) = Inl BodyNotJson"
| "gql_result (Response status (Some json)) =
     (if \<not> ok status
      then Inl (ShopifyGraphQLError
                 (if truthy (get_prop json ''errors'') then ErrorsJson (get_prop json ''errors'')
                  else HttpStatus status))
      else Inr json)"

definition gql :: "'s store \<Rightarrow> request \<Rightarrow> 's world \<Rightarrow> (error + jsval) \<times> 's world" where
  "gql store rq w =
     (case w of (sent, s) \<Rightarrow>
        (case store s rq of (r, s') \<Rightarrow> (gql_result r, (sent @ [rq], s'))))"

text \<open>The \<open>gql\<close> of the two \<open>.js\<close> files returns \<open>r.json()\<close> without looking at the status.\<close>

fun gql_js_result :: "fetch_result \<Rightarrow> error + jsval" where
  "gql_js_result Rejected = Inl FetchRejected"
| "gql_js_result (Response status None) = Inl BodyNotJson"
| "gql_js_result (Response status (Some json)) = Inr json"

text \<open>
  \<open>uploadExternalImage\<close>: one \<open>fileCreate\<close> call; \<open>null\<close> when the first file of the answer
  has no truthy id, else its id and preview URL. An error of \<open>gql\<close> is thrown on.
\<close>

definition uploadExternalImage ::
  "'s store \<Rightarrow> string \<Rightarrow> 's world \<Rightarrow> (error + (jsval \<times> jsval) option) \<times> 's world" where
  "uploadExternalImage store url w =
     (case gql store (FileCreate url) w of
        (Inl e, w') \<Rightarrow> (Inl e, w')
      | (Inr res, w') \<Rightarrow>
          (let file = index0 (get_prop (get_prop (get_prop res ''data'') ''fileCreate'') ''files'')
           in if \<not> truthy (get_prop file ''id'') then (Inr None, w')
              else (Inr (Some (get_prop file ''id'',
                               get_prop (get_prop (get_prop file ''preview'') ''image'') ''url'')), w')))"

text \<open>\<open>uploadExternalImage(url).catch(() => null)\<close>, as both call sites write it.\<close>

definition upload_or_null ::
  "'s store \<Rightarrow> string \<Rightarrow> 's world \<Rightarrow> (jsval \<times> jsval) option \<times> 's world" where
  "upload_or_null store url w =
     (case uploadExternalImage store url w of
        (Inl e, w') \<Rightarrow> (None, w')
      | (Inr u, w') \<Rightarrow> (u, w'))"

subsection \<open>The alias table and the normalized values\<close>

definition MAP_externalId :: "string list" where
  "MAP_externalId = [''Entry ID'', ''entryId'', ''Number'', ''id'']"
definition MAP_name :: "string list" where
  "MAP_name = [''Name'', ''Dog Name'', ''name'', ''dog_name'']"
definition MAP_status :: "string list" where
  "MAP_status = [''Status'', ''status'']"
definition MAP_species :: "string list" where
  "MAP_species = [''Species'', ''species'']"
definition MAP_breed :: "string list" where
  "MAP_breed = [''Breed'', ''breed'']"
definition MAP_age :: "string list" where
  "MAP_age = [''Age'', ''age'']"
definition MAP_gender :: "string list" where
  "MAP_gender = [''Gender'', ''gender'']"
definition MAP_size :: "string list" where
  "MAP_size = [''Size'', ''size'']"
definition MAP_location :: "string list" where
  "MAP_location = [''Location'', ''location'', ''City'']"
definition MAP_adoptionFee :: "string list" where
  "MAP_adoptionFee = [''Adoption Fee'', ''adoption_fee'', ''AdoptionFee'']"
definition MAP_description :: "string list" where
  "MAP_description = [''Description'', ''description'']"
definition MAP_imageUrl :: "string list" where
  "MAP_imageUrl = [''Image Url'', ''ImageUrl'', ''image_url'', ''PhotoUrl'']"
definition MAP_gallery :: "string list" where
  "MAP_gallery = [''Gallery Urls'', ''Gallery'', ''image_urls'']"
definition MAP_goodWithKids :: "string list" where
  "MAP_goodWithKids = [''Good With Kids'', ''good_with_kids'']"
definition MAP_goodWithDogs :: "string list" where
  "MAP_goodWithDogs = [''Good With Dogs'', ''good_with_dogs'']"
definition MAP_goodWithCats :: "string list" where
  "MAP_goodWithCats = [''Good With Cats'', ''good_with_cats'']"
definition MAP_houseTrained :: "string list" where
  "MAP_houseTrained = [''House Trained'', ''house_trained'']"
definition MAP_spayedNeutered :: "string list" where
  "MAP_spayedNeutered = [''Spayed/Neutered'', ''spayed_neutered'']"
definition MAP_vaccinated :: "string list" where
  "MAP_vaccinated = [''Vaccinated'', ''vaccinated'']"

text \<open>
  \<open>pick\<close>: the loop over the keys returns the first value that passes the test. The test
  converts the value with \<open>String\<close>, so it throws when the conversion does.
\<close>

fun pick :: "jsval \<Rightarrow> string list \<Rightarrow> jsval \<Rightarrow> error + jsval" where
  "pick payload [] fallback = Inr fallback"
| "pick payload (k # keys) fallback =
     (let v = get_prop payload k
      in if v = JUndefined \<or> v = JNull then pick payload keys fallback
         else (case to_String v of
                 Inl e \<Rightarrow> Inl e
               | Inr s \<Rightarrow> if trim s \<noteq> [] then Inr v else pick payload keys fallback))"

text \<open>\<open>String(pick(payload, keys, fallback))\<close> and \<open>!!pick(payload, keys, false)\<close>.\<close>

definition String_pick :: "jsval \<Rightarrow> string list \<Rightarrow> jsval \<Rightarrow> error + string" where
  "String_pick payload keys fallback =
     (case pick payload keys fallback of Inl e \<Rightarrow> Inl e | Inr v \<Rightarrow> to_String v)"

definition flag_pick :: "jsval \<Rightarrow> string list \<Rightarrow> error + bool" where
  "flag_pick payload keys =
     (case pick payload keys (JBool False) of Inl e \<Rightarrow> Inl e | Inr v \<Rightarrow> Inr (truthy v))"

text \<open>
  Lines 121 to 128: the gallery value is the first of the three aliases that is neither
  \<open>undefined\<close> nor \<open>null\<close> (\<open>??\<close>); an array keeps its strings that pass the URL test, a
  string with a comma is split, trimmed and filtered, anything else leaves the list empty.
\<close>

definition gallery_value :: "jsval \<Rightarrow> jsval" where
  "gallery_value payload =
     (let g0 = get_prop payload (MAP_gallery ! 0)
      in if \<not> nullish g0 then g0
         else (let g1 = get_prop payload (MAP_gallery ! 1)
               in if \<not> nullish g1 then g1 else get_prop payload (MAP_gallery ! 2)))"

fun string_urls :: "jsval list \<Rightarrow> string list" where
  "string_urls [] = []"
| "string_urls (JStr u # xs) = (if is_http u then u # string_urls xs else string_urls xs)"
| "string_urls (x # xs) = string_urls xs"

fun gallery_of :: "jsval \<Rightarrow> string list" where
  "gallery_of (JArr xs) = string_urls xs"
| "gallery_of (JStr g) =
     (if CHR '','' \<in> set g then filter is_http (map trim (split_comma g)) else [])"
| "gallery_of _ = []"

record normalized =
  externalId :: string
  name :: string
  statusRaw :: string
  species :: string
  breed :: string
  age :: string
  gender :: string
  size_v :: string
  location :: string
  adoptionFee :: string
  description :: string
  imageUrl :: string
  galleryUrls :: "string list"
  good_with_kids :: bool
  good_with_dogs :: bool
  good_with_cats :: bool
  house_trained :: bool
  spayed_neutered :: bool
  vaccinated :: bool
  publishStatus :: publish

text \<open>
  How the normalization of a record ends without a record: the identity is missing (the
  handler answers 400), or a conversion threw (the handler's \<open>catch\<close> answers 500).
\<close>

datatype norm_error = MissingIdentity | Thrown error

text \<open>The next statement runs on the value of an expression that did not throw.\<close>

definition and_then :: "error + 'a \<Rightarrow> ('a \<Rightarrow> norm_error + 'b) \<Rightarrow> norm_error + 'b" where
  "and_then r f = (case r of Inl e \<Rightarrow> Inl (Thrown e) | Inr x \<Rightarrow> f x)"

text \<open>
  Lines 106 to 139 of the handler, statement by statement. An empty \<open>externalId\<close> ends the
  request with status 400 (\<open>Missing external id\<close>) before anything else is computed.
\<close>

definition normalize :: "jsval \<Rightarrow> norm_error + normalized" where
  "normalize payload =
     and_then (String_pick payload MAP_externalId (JStr '''')) (\<lambda>idText.
     let externalId = trim idText
     in if externalId = [] then Inl MissingIdentity
     else
     and_then (String_pick payload MAP_name (JStr ''Unnamed'')) (\<lambda>nameText.
     and_then (String_pick payload MAP_status (JStr ''available'')) (\<lambda>statusText.
     and_then (String_pick payload MAP_species (JStr ''Dog'')) (\<lambda>species.
     and_then (String_pick payload MAP_breed (JStr '''')) (\<lambda>breed.
     and_then (String_pick payload MAP_age (JStr '''')) (\<lambda>age.
     and_then (String_pick payload MAP_gender (JStr '''')) (\<lambda>gender.
     and_then (String_pick payload MAP_size (JStr '''')) (\<lambda>size_v.
     and_then (String_pick payload MAP_location (JStr '''')) (\<lambda>location.
     and_then (String_pick payload MAP_adoptionFee (JStr '''')) (\<lambda>adoptionFee.
     and_then (String_pick payload MAP_description (JStr '''')) (\<lambda>description.
     and_then (String_pick payload MAP_imageUrl (JStr '''')) (\<lambda>imageUrl.
     let galleryUrls = gallery_of (gallery_value payload)
     in
     and_then (flag_pick payload MAP_goodWithKids) (\<lambda>good_with_kids.
     and_then (flag_pick payload MAP_goodWithDogs) (\<lambda>good_with_dogs.
     and_then (flag_pick payload MAP_goodWithCats) (\<lambda>good_with_cats.
     and_then (flag_pick payload MAP_houseTrained) (\<lambda>house_trained.
     and_then (flag_pick payload MAP_spayedNeutered) (\<lambda>spayed_neutered.
     and_then (flag_pick payload MAP_vaccinated) (\<lambda>vaccinated.
     let statusRaw = toLowerCase statusText
     in Inr \<lparr> externalId = externalId,
              name = trim nameText,
              statusRaw = statusRaw,
              species = species,
              breed = breed,
              age = age,
              gender = gender,
              size_v = size_v,
              location = location,
              adoptionFee = adoptionFee,
              description = description,
              imageUrl = imageUrl,
              galleryUrls = galleryUrls,
              good_with_kids = good_with_kids,
              good_with_dogs = good_with_dogs,
              good_with_cats = good_with_cats,
              house_trained = house_trained,
              spayed_neutered = spayed_neutered,
              vaccinated = vaccinated,
              publishStatus = (if statusRaw = ''available'' then ACTIVE else DRAFT) \<rparr>
     ))))))))))))))))))"

subsection \<open>The handler\<close>

text \<open>
  \<open>description.replace(/\n+/g, "</p><p>")\<close>: every maximal run of line feeds becomes one
  \<open></p><p>\<close>. The flag says that the character before was a line feed of the same run.
\<close>

fun replace_newlines :: "bool \<Rightarrow> string \<Rightarrow> string" where
  "replace_newlines inrun [] = []"
| "replace_newlines inrun (c # cs) =
     (if c = CHR 0x0A
      then (if inrun then replace_newlines True cs else ''</p><p>'' @ replace_newlines True cs)
      else c # replace_newlines False cs)"

definition text_field :: "string \<Rightarrow> string \<Rightarrow> mfield" where
  "text_field k v = \<lparr> mf_key = k, mf_value = VStr v, mf_type = None \<rparr>"

definition boolean_field :: "string \<Rightarrow> bool \<Rightarrow> mfield" where
  "boolean_field k b =
     \<lparr> mf_key = k, mf_value = VStr (if b then ''true'' else ''false''), mf_type = Some ''boolean'' \<rparr>"

text \<open>Lines 142 to 161: the seventeen fields every upsert carries.\<close>

definition base_fields :: "normalized \<Rightarrow> mfield list" where
  "base_fields n =
     [ text_field ''external_id'' (externalId n),
       text_field ''name'' (name n),
       text_field ''status'' (statusRaw n),
       text_field ''species'' (species n),
       text_field ''breed'' (breed n),
       text_field ''age'' (age n),
       text_field ''gender'' (gender n),
       text_field ''size'' (size_v n),
       text_field ''location'' (location n),
       text_field ''adoption_fee'' (adoptionFee n),
       boolean_field ''good_with_kids'' (good_with_kids n),
       boolean_field ''good_with_dogs'' (good_with_dogs n),
       boolean_field ''good_with_cats'' (good_with_cats n),
       boolean_field ''house_trained'' (house_trained n),
       boolean_field ''spayed_neutered'' (spayed_neutered n),
       boolean_field ''vaccinated'' (vaccinated n),
       \<lparr> mf_key = ''description'',
         mf_value = VStr (''<p>'' @ replace_newlines False (description n) @ ''</p>''),
         mf_type = Some ''rich_text_field'' \<rparr> ]"

text \<open>Lines 163 to 169: the primary image, returning the fields to push.\<close>

definition upload_primary :: "'s store \<Rightarrow> string \<Rightarrow> 's world \<Rightarrow> mfield list \<times> 's world" where
  "upload_primary store url w =
     (if url \<noteq> [] \<and> is_http url
      then (case upload_or_null store url w of
              (Some (fid, purl), w') \<Rightarrow>
                (if truthy fid
                 then ([\<lparr> mf_key = ''image'', mf_value = VId fid, mf_type = Some ''file_reference'' \<rparr>], w')
                 else ([], w'))
            | (None, w') \<Rightarrow> ([], w'))
      else ([], w))"

text \<open>Lines 174 to 178: the loop over the gallery URLs, collecting \<open>fileIds\<close>.\<close>

fun gallery_loop :: "'s store \<Rightarrow> string list \<Rightarrow> jsval list \<Rightarrow> 's world \<Rightarrow> jsval list \<times> 's world" where
  "gallery_loop store [] fileIds w = (fileIds, w)"
| "gallery_loop store (url # urls) fileIds w =
     (if \<not> is_http url then gallery_loop store urls fileIds w
      else (case upload_or_null store url w of
              (Some (fid, purl), w') \<Rightarrow>
                gallery_loop store urls (if truthy fid then fileIds @ [fid] else fileIds) w'
            | (None, w') \<Rightarrow> gallery_loop store urls fileIds w'))"

text \<open>Lines 171 to 182: the gallery, returning the fields to push.\<close>

definition upload_gallery :: "'s store \<Rightarrow> string list \<Rightarrow> 's world \<Rightarrow> mfield list \<times> 's world" where
  "upload_gallery store urls w =
     (if urls \<noteq> []
      then (case gallery_loop store (take 12 urls) [] w of
              (fileIds, w') \<Rightarrow>
                (if fileIds \<noteq> []
                 then ([\<lparr> mf_key = ''gallery'', mf_value = VIds fileIds,
                          mf_type = Some ''list.file_reference'' \<rparr>], w')
                 else ([], w')))
      else ([], w))"

text \<open>
  What a handler answers: a status with a text, or one of the JSON bodies the two handlers
  send (status 400 for the two rejections, 500 for a caught error, 200 for the rest).
\<close>

datatype http_response =
    Send nat string
  | UpsertRejected jsval
  | Synced jsval string publish
  | ServerError error
  | StepRejected string jsval
  | Created jsval
  | UpToDate
  | CreatedFields "string list"

fun status_code :: "http_response \<Rightarrow> nat" where
  "status_code (Send c t) = c"
| "status_code (UpsertRejected e) = 400"
| "status_code (Synced i h p) = 200"
| "status_code (ServerError e) = 500"
| "status_code (StepRejected s e) = 400"
| "status_code (Created d) = 200"
| "status_code UpToDate = 200"
| "status_code (CreatedFields ks) = 200"

record http_request =
  http_method :: string
  x_webhook_secret :: "string option"
  authorization :: "string option"
  body :: jsval

text \<open>Lines 141 to 200: field list, uploads and the upsert by handle.\<close>

definition upsert_record :: "'s store \<Rightarrow> normalized \<Rightarrow> 's world \<Rightarrow> http_response \<times> 's world" where
  "upsert_record store n w =
     (case upload_primary store (imageUrl n) w of (pushed1, w1) \<Rightarrow>
      (case upload_gallery store (galleryUrls n) w1 of (pushed2, w2) \<Rightarrow>
       (case gql store (UpsertAnimal (externalId n) (name n) (base_fields n @ pushed1 @ pushed2)
                          (publishStatus n)) w2 of
          (Inl e, w3) \<Rightarrow> (ServerError e, w3)
        | (Inr result, w3) \<Rightarrow>
            (let upserted = get_prop (get_prop result ''data'') ''metaobjectUpsert'';
                 err = index0 (get_prop upserted ''userErrors'')
             in if truthy err then (UpsertRejected err, w3)
                else (Synced (get_prop (get_prop upserted ''metaobject'') ''id'')
                        (externalId n) (publishStatus n), w3)))))"

text \<open>The handler of api/cognito-shopify.ts; \<open>secret\<close> is \<open>WEBHOOK_SECRET\<close>.\<close>

definition cognito_shopify_handler ::
  "string \<Rightarrow> 's store \<Rightarrow> http_request \<Rightarrow> 's world \<Rightarrow> http_response \<times> 's world" where
  "cognito_shopify_handler secret store req w =
     (if http_method req \<noteq> ''POST'' then (Send 405 ''Method Not Allowed'', w)
      else if (case x_webhook_secret req of None \<Rightarrow> True | Some sig \<Rightarrow> sig = [] \<or> sig \<noteq> secret)
      then (Send 401 ''Unauthorized'', w)
      else (let payload = (if truthy (body req) then body req else JObj [])
            in case normalize payload of
                 Inl MissingIdentity \<Rightarrow> (Send 400 ''Missing external id (e.g., Entry ID)'', w)
               | Inl (Thrown e) \<Rightarrow> (ServerError e, w)
               | Inr n \<Rightarrow> upsert_record store n w))"

section \<open>The schema handler (api/shopify/setup-animal.ts)\<close>

definition field :: "string \<Rightarrow> string \<Rightarrow> string \<Rightarrow> field_def" where
  "field n k t = \<lparr> fd_name = n, fd_key = k, fd_type = t, fd_required = None, fd_validations = None \<rparr>"

definition FIELDS :: "field_def list" where
  "FIELDS =
     [ (field ''Name'' ''name'' ''single_line_text_field'') \<lparr> fd_required := Some True \<rparr>,
       field ''Status'' ''status'' ''single_line_text_field'',
       field ''Species'' ''species'' ''single_line_text_field'',
       field ''Breed'' ''breed'' ''single_line_text_field'',
       field ''Age'' ''age'' ''single_line_text_field'',
       field ''Gender'' ''gender'' ''single_line_text_field'',
       field ''Size'' ''size'' ''single_line_text_field'',
       field ''Location'' ''location'' ''single_line_text_field'',
       field ''Adoption Fee'' ''adoption_fee'' ''single_line_text_field'',
       field ''Good With Kids'' ''good_with_kids'' ''boolean'',
       field ''Good With Dogs'' ''good_with_dogs'' ''boolean'',
       field ''Good With Cats'' ''good_with_cats'' ''boolean'',
       field ''House Trained'' ''house_trained'' ''boolean'',
       field ''Spayed/Neutered'' ''spayed_neutered'' ''boolean'',
       field ''Vaccinated'' ''vaccinated'' ''boolean'',
       field ''Description'' ''description'' ''rich_text_field'',
       field ''Image'' ''image'' ''file_reference'',
       field ''Gallery'' ''gallery'' ''list.file_reference'',
       (field ''External ID'' ''external_id'' ''single_line_text_field'')
         \<lparr> fd_validations := Some [''UNIQUE''] \<rparr> ]"

text \<open>
  Line 112: \<open>existing.fieldDefinitions.map((f) => f.key)\<close>. Only an array has \<open>map\<close>, and
  reading \<open>key\<close> of \<open>null\<close> throws; both are a \<open>TypeError\<close>.
\<close>

definition existingKeys :: "jsval \<Rightarrow> error + jsval list" where
  "existingKeys existing =
     (case get_prop existing ''fieldDefinitions'' of
        JArr fs \<Rightarrow> (if \<exists>f \<in> set fs. nullish f then Inl TypeError
                    else Inr (map (\<lambda>f. get_prop f ''key'') fs))
      | _ \<Rightarrow> Inl TypeError)"

text \<open>Lines 113 to 116: the catalog fields whose key the set does not have.\<close>

definition toCreate :: "field_def list \<Rightarrow> jsval list \<Rightarrow> field_def list" where
  "toCreate catalog keys =
     map (\<lambda>f. f \<lparr> fd_required := Some (case fd_required f of None \<Rightarrow> False | Some b \<Rightarrow> b) \<rparr>)
       (filter (\<lambda>f. JStr (fd_key f) \<notin> set keys) catalog)"

text \<open>Lines 90 to 130, for a catalog (the handler runs it on \<open>FIELDS\<close>).\<close>

definition reconcile :: "field_def list \<Rightarrow> 's store \<Rightarrow> 's world \<Rightarrow> http_response \<times> 's world" where
  "reconcile catalog store w =
     (case gql store (GetDefinition ''animal'') w of
        (Inl e, w1) \<Rightarrow> (ServerError e, w1)
      | (Inr defResp, w1) \<Rightarrow>
          (let existing = get_prop (get_prop defResp ''data'') ''metaobjectDefinitionByType''
           in if \<not> truthy existing
              then (case gql store (CreateDefinition catalog) w1 of
                      (Inl e, w2) \<Rightarrow> (ServerError e, w2)
                    | (Inr createResp, w2) \<Rightarrow>
                        (let r = get_prop (get_prop createResp ''data'') ''metaobjectDefinitionCreate'';
                             errs = get_prop r ''userErrors''
                         in if truthy (js_length errs) then (StepRejected ''create'' errs, w2)
                            else (Created (get_prop r ''metaobjectDefinition''), w2)))
              else (case existingKeys existing of
                      Inl e \<Rightarrow> (ServerError e, w1)
                    | Inr keys \<Rightarrow>
                        (let missing = toCreate catalog keys
                         in if length missing = 0 then (UpToDate, w1)
                            else (case gql store (UpdateDefinition (get_prop existing ''id'') missing []) w1 of
                                    (Inl e, w2) \<Rightarrow> (ServerError e, w2)
                                  | (Inr updateResp, w2) \<Rightarrow>
                                      (let uErrs = get_prop (get_prop (get_prop updateResp ''data'')
                                                     ''metaobjectDefinitionUpdate'') ''userErrors''
                                       in if truthy (js_length uErrs) then (StepRejected ''update'' uErrs, w2)
                                          else (CreatedFields (map fd_key missing), w2)))))))"

text \<open>The handler of api/shopify/setup-animal.ts; \<open>secret\<close> is \<open>SETUP_SECRET\<close>.\<close>

definition setup_animal_handler ::
  "string \<Rightarrow> 's store \<Rightarrow> http_request \<Rightarrow> 's world \<Rightarrow> http_response \<times> 's world" where
  "setup_animal_handler secret store req w =
     (if http_method req \<noteq> ''POST'' then (Send 405 ''Use POST'', w)
      else if (case authorization req of None \<Rightarrow> [] | Some a \<Rightarrow> a) \<noteq> ''Bearer '' @ secret
      then (Send 401 ''Unauthorized'', w)
      else reconcile FIELDS store w)"

section \<open>Notions the properties are stated with\<close>

text \<open>
  An alias value is blank when it is absent, \<open>null\<close>, or has a string representation of
  white space only (the empty one among them). It is unprintable when it has no string
  representation, because \<open>String\<close> throws on it. It counts when it is neither.
\<close>

definition blank :: "jsval \<Rightarrow> bool" where
  "blank v = (v = JUndefined \<or> v = JNull
     \<or> (case to_String v of Inl e \<Rightarrow> False | Inr s \<Rightarrow> \<forall>c \<in> set s. is_space c))"

definition unprintable :: "jsval \<Rightarrow> bool" where
  "unprintable v = (to_String v = Inl TypeError)"

definition usable :: "jsval \<Rightarrow> bool" where
  "usable v = (\<not> blank v \<and> \<not> unprintable v)"

text \<open>The string representation of a value that has one.\<close>

definition text_of :: "jsval \<Rightarrow> string" where
  "text_of v = (case to_String v of Inl e \<Rightarrow> [] | Inr s \<Rightarrow> s)"

text \<open>The value of the first alias, in the order of the list, whose value counts.\<close>

definition first_usable :: "jsval \<Rightarrow> string list \<Rightarrow> jsval option" where
  "first_usable payload keys =
     map_option (get_prop payload) (find (\<lambda>k. usable (get_prop payload k)) keys)"

text \<open>Reading a field throws when the first alias that is not blank is unprintable.\<close>

definition throws :: "jsval \<Rightarrow> string list \<Rightarrow> bool" where
  "throws payload keys =
     (case find (\<lambda>k. \<not> blank (get_prop payload k)) keys of
        None \<Rightarrow> False
      | Some k \<Rightarrow> unprintable (get_prop payload k))"

text \<open>The alias lists of the fields that are read through \<open>pick\<close>: all but the gallery.\<close>

definition PICKED :: "string list list" where
  "PICKED = [MAP_externalId, MAP_name, MAP_status, MAP_species, MAP_breed, MAP_age, MAP_gender,
             MAP_size, MAP_location, MAP_adoptionFee, MAP_description, MAP_imageUrl,
             MAP_goodWithKids, MAP_goodWithDogs, MAP_goodWithCats, MAP_houseTrained,
             MAP_spayedNeutered, MAP_vaccinated]"

text \<open>
  A string is a variant of \<open>available\<close> up to case when it has the same length and each of
  its characters is the small letter at that place or the capital 32 code units below it.
\<close>

definition either_case :: "char \<Rightarrow> char \<Rightarrow> bool" where
  "either_case c l = (c = l \<or> (of_char c :: nat) + 32 = of_char l)"

definition available_variant :: "string \<Rightarrow> bool" where
  "available_variant s = list_all2 either_case s ''available''"

text \<open>The status string the publication state is computed from, before lowercasing.\<close>

definition status_string :: "jsval \<Rightarrow> string" where
  "status_string payload =
     (case first_usable payload MAP_status of None \<Rightarrow> ''available'' | Some v \<Rightarrow> text_of v)"

text \<open>The fallback chain in the words of the specification: the first usable alias, else the fallback.\<close>

definition selected :: "jsval \<Rightarrow> string list \<Rightarrow> jsval \<Rightarrow> jsval" where
  "selected payload keys fallback =
     (case first_usable payload keys of None \<Rightarrow> fallback | Some v \<Rightarrow> v)"

text \<open>
  A boolean field: false on the fallback and when the selected value is \<open>false\<close> or a
  falsy number (\<open>0\<close>, or \<open>NaN\<close>, which no parsed payload holds).
\<close>

definition flag_value :: "jsval \<Rightarrow> string list \<Rightarrow> bool" where
  "flag_value payload keys =
     (case first_usable payload keys of
        None \<Rightarrow> False
      | Some v \<Rightarrow> v \<noteq> JBool False \<and> v \<noteq> JNum ''0'' \<and> v \<noteq> JNum ''NaN'')"

text \<open>The value of the first alias that is neither \<open>undefined\<close> nor \<open>null\<close>.\<close>

definition first_present :: "jsval \<Rightarrow> string list \<Rightarrow> jsval" where
  "first_present payload keys =
     (case find (\<lambda>k. \<not> nullish (get_prop payload k)) keys of
        None \<Rightarrow> JUndefined
      | Some k \<Rightarrow> get_prop payload k)"

text \<open>The requests sent when a step of a handler has run from some world.\<close>

definition requests :: "'a \<times> 's world \<Rightarrow> request list" where
  "requests r = fst (snd r)"

text \<open>The fields a gallery step pushes hold at most \<open>cap\<close> file ids.\<close>

fun ids_within :: "nat \<Rightarrow> mfield list \<Rightarrow> bool" where
  "ids_within cap [] = True"
| "ids_within cap (f # fs) =
     ((case mf_value f of VIds ids \<Rightarrow> length ids \<le> cap | _ \<Rightarrow> False) \<and> fs = [])"

section \<open>Example inputs\<close>

text \<open>The example record of the specification, and what it normalizes to.\<close>

definition rex_payload :: jsval where
  "rex_payload = JObj [(''Entry ID'', JStr ''42''), (''Name'', JStr ''Rex''),
                       (''Status'', JStr ''AVAILABLE''), (''Good With Kids'', JStr ''true'')]"

definition rex_record :: normalized where
  "rex_record = \<lparr> externalId = ''42'', name = ''Rex'', statusRaw = ''available'',
            species = ''Dog'', breed = [], age = [], gender = [], size_v = [],
            location = [], adoptionFee = [], description = [], imageUrl = [],
            galleryUrls = [], good_with_kids = True, good_with_dogs = False,
            good_with_cats = False, house_trained = False,
            spayed_neutered = False, vaccinated = False,
            publishStatus = ACTIVE \<rparr>"

text \<open>A record with an identity and no status at all.\<close>

definition no_status_payload :: jsval where
  "no_status_payload = JObj [(''Entry ID'', JStr ''7''), (''Name'', JStr ''Bo'')]"

text \<open>The second example of the specification: a record without identity, and its request.\<close>

definition nameless_payload :: jsval where
  "nameless_payload = JObj [(''Name'', JStr ''Rex''), (''Entry ID'', JStr ''  ''), (''id'', JNull)]"

definition nameless_request :: http_request where
  "nameless_request = \<lparr> http_method = ''POST'', x_webhook_secret = Some ''s3cret'',
                         authorization = None, body = nameless_payload \<rparr>"

text \<open>A store that cannot be reached: every \<open>fetch\<close> rejects.\<close>

definition down_store :: "unit store" where
  "down_store s rq = (Rejected, s)"

text \<open>
  A record with an identity whose name is an object with a \<open>toString\<close> entry of its own,
  and its request; and a record whose identity is such an object.
\<close>

definition odd_name_payload :: jsval where
  "odd_name_payload = JObj [(''Entry ID'', JStr ''42''), (''Name'', JObj [(''toString'', JNum ''1'')])]"

definition odd_name_request :: http_request where
  "odd_name_request = \<lparr> http_method = ''POST'', x_webhook_secret = Some ''s3cret'',
                          authorization = None, body = odd_name_payload \<rparr>"

definition odd_identity_payload :: jsval where
  "odd_identity_payload = JObj [(''Entry ID'', JObj [(''toString'', JStr ''x'')]), (''id'', JStr ''7'')]"

text \<open>A record with boolean fields given as strings, as a number and as a boolean.\<close>

definition flags_payload :: jsval where
  "flags_payload = JObj [(''Entry ID'', JStr ''9''),
     (''Good With Kids'', JStr ''false''), (''Good With Dogs'', JStr ''no''),
     (''Good With Cats'', JStr ''0''), (''House Trained'', JNum ''0''),
     (''Vaccinated'', JBool False), (''vaccinated'', JStr ''yes'')]"

definition flags_record :: normalized where
  "flags_record = \<lparr> externalId = ''9'', name = ''Unnamed'', statusRaw = ''available'',
            species = ''Dog'', breed = [], age = [], gender = [], size_v = [],
            location = [], adoptionFee = [], description = [], imageUrl = [],
            galleryUrls = [], good_with_kids = True, good_with_dogs = True,
            good_with_cats = True, house_trained = False,
            spayed_neutered = False, vaccinated = False,
            publishStatus = ACTIVE \<rparr>"

text \<open>A record whose first gallery alias is the empty string and whose second is an array.\<close>

definition blank_gallery_payload :: jsval where
  "blank_gallery_payload = JObj [(''Entry ID'', JStr ''11''), (''Gallery Urls'', JStr ''''),
     (''Gallery'', JArr [JStr ''https://img.example/a.jpg''])]"

definition blank_gallery_record :: normalized where
  "blank_gallery_record = \<lparr> externalId = ''11'', name = ''Unnamed'', statusRaw = ''available'',
            species = ''Dog'', breed = [], age = [], gender = [], size_v = [],
            location = [], adoptionFee = [], description = [], imageUrl = [],
            galleryUrls = [], good_with_kids = False, good_with_dogs = False,
            good_with_cats = False, house_trained = False,
            spayed_neutered = False, vaccinated = False,
            publishStatus = ACTIVE \<rparr>"

text \<open>A record whose gallery is one URL in a string.\<close>

definition single_url_payload :: jsval where
  "single_url_payload = JObj [(''Entry ID'', JStr ''12''),
     (''Gallery Urls'', JStr ''https://img.example/a.jpg''),
     (''Gallery'', JArr [JStr ''https://img.example/b.jpg''])]"

definition single_url_record :: normalized where
  "single_url_record = \<lparr> externalId = ''12'', name = ''Unnamed'', statusRaw = ''available'',
            species = ''Dog'', breed = [], age = [], gender = [], size_v = [],
            location = [], adoptionFee = [], description = [], imageUrl = [],
            galleryUrls = [], good_with_kids = False, good_with_dogs = False,
            good_with_cats = False, house_trained = False,
            spayed_neutered = False, vaccinated = False,
            publishStatus = ACTIVE \<rparr>"

text \<open>Twenty gallery URLs, a record that carries them, and a store that files every upload.\<close>

definition urls20 :: "string list" where
  "urls20 = map (\<lambda>i. ''https://img.example/'' @ digits i @ ''.jpg'') [1..<21]"

definition gallery20_payload :: jsval where
  "gallery20_payload = JObj [(''Entry ID'', JStr ''20''), (''Gallery Urls'', JArr (map JStr urls20))]"

definition gallery20_record :: normalized where
  "gallery20_record = \<lparr> externalId = ''20'', name = ''Unnamed'', statusRaw = ''available'',
            species = ''Dog'', breed = [], age = [], gender = [], size_v = [],
            location = [], adoptionFee = [], description = [], imageUrl = [],
            galleryUrls = urls20, good_with_kids = False, good_with_dogs = False,
            good_with_cats = False, house_trained = False,
            spayed_neutered = False, vaccinated = False,
            publishStatus = ACTIVE \<rparr>"

definition data_body :: "string \<Rightarrow> jsval \<Rightarrow> jsval" where
  "data_body k v = JObj [(''data'', JObj [(k, v)])]"

fun files_store :: "nat store" where
  "files_store s (FileCreate url) =
     (Response 200 (Some (data_body ''fileCreate''
        (JObj [(''files'', JArr [JObj [(''id'', JStr (''gid://File/'' @ digits s))]])]))), Suc s)"
| "files_store s rq =
     (Response 200 (Some (data_body ''metaobjectUpsert''
        (JObj [(''metaobject'', JObj [(''id'', JStr ''gid://Metaobject/1'')]), (''userErrors'', JArr [])]))), s)"

text \<open>A record with a primary image, and a store where every upload fails with status 500.\<close>

definition image_payload :: jsval where
  "image_payload = JObj [(''Entry ID'', JStr ''5''), (''Image Url'', JStr ''https://img.example/p.jpg'')]"



text \<open>
  A store that answers every request with status 200 and a body that has both a
  non-empty \<open>errors\<close> array and \<open>data\<close>; and an authorized request with the example record.
\<close>

definition errors_body :: jsval where
  "errors_body = JObj [(''errors'', JArr [JObj [(''message'', JStr ''Throttled'')]]),
     (''data'', JObj [(''metaobjectUpsert'', JObj [(''metaobject'', JObj [(''id'', JStr ''gid://Metaobject/1'')])])])]"

definition errors_store :: "unit store" where
  "errors_store s rq = (Response 200 (Some errors_body), s)"

definition rex_request :: http_request where
  "rex_request = \<lparr> http_method = ''POST'', x_webhook_secret = Some ''s3cret'',
                     authorization = None, body = rex_payload \<rparr>"

text \<open>The definition a response to \<open>GET_DEFINITION\<close> carries.\<close>

definition definition_of :: "jsval \<Rightarrow> jsval" where
  "definition_of defResp = get_prop (get_prop defResp ''data'') ''metaobjectDefinitionByType''"

text \<open>
  A store that accepts every definition request, which is what the noop property of the
  reconciler assumes of it. Its state is the list of the field definitions of the type,
  \<open>None\<close> while the type does not exist: creating the type stores the fields sent,
  updating it adds the fields to create after the ones it has.
\<close>

definition field_json :: "field_def \<Rightarrow> jsval" where
  "field_json f = JObj [(''name'', JStr (fd_name f)), (''key'', JStr (fd_key f)),
                        (''type'', JStr (fd_type f)), (''required'', JBool (fd_required f = Some True))]"

definition definition_json :: "jsval list \<Rightarrow> jsval" where
  "definition_json fs = JObj [(''id'', JStr ''gid://MetaobjectDefinition/1''), (''name'', JStr ''Animal''),
                              (''type'', JStr ''animal''), (''fieldDefinitions'', JArr fs)]"

fun accepting_store :: "jsval list option store" where
  "accepting_store st (GetDefinition t) =
     (Response 200 (Some (JObj [(''data'', JObj [(''metaobjectDefinitionByType'',
        (case st of None \<Rightarrow> JNull | Some fs \<Rightarrow> definition_json fs))])])), st)"
| "accepting_store st (CreateDefinition fs) =
     (Response 200 (Some (JObj [(''data'', JObj [(''metaobjectDefinitionCreate'',
        JObj [(''metaobjectDefinition'', definition_json []), (''userErrors'', JArr [])])])])),
      Some (map field_json fs))"
| "accepting_store st (UpdateDefinition i cs us) =
     (Response 200 (Some (JObj [(''data'', JObj [(''metaobjectDefinitionUpdate'',
        JObj [(''metaobjectDefinition'', JObj [(''id'', i)]), (''userErrors'', JArr [])])])])),
      Some ((case st of None \<Rightarrow> [] | Some fs \<Rightarrow> fs) @ map field_json cs))"
| "accepting_store st rq = (Response 200 (Some JNull), st)"

text \<open>Running the reconciler from the world that a first run has left.\<close>

definition second_run :: "field_def list \<Rightarrow> 's store \<Rightarrow> 's world \<Rightarrow> http_response \<times> 's world" where
  "second_run catalog store w = reconcile catalog store (snd (reconcile catalog store w))"

text \<open>A type that has the name and status fields only.\<close>

definition two_fields :: "jsval list" where
  "two_fields = [field_json (FIELDS ! 0), field_json (FIELDS ! 1)]"

section \<open>Strings: trimming and lowercasing\<close>

lemma dropWhile_all_iff: "(\<forall>x \<in> set (dropWhile P xs). P x) \<longleftrightarrow> (\<forall>x \<in> set xs. P x)"
  by (induction xs) auto

lemma trim_empty_iff: "trim s = [] \<longleftrightarrow> (\<forall>c \<in> set s. is_space c)"
  by (simp add: trim_def dropWhile_eq_Nil_conv dropWhile_all_iff)

lemma dropWhile_id: "xs = [] \<or> \<not> P (hd xs) \<Longrightarrow> dropWhile P xs = xs"
  by (cases xs) auto

lemma hd_dropWhile_not: "dropWhile P xs \<noteq> [] \<Longrightarrow> \<not> P (hd (dropWhile P xs))"
  by (simp add: hd_dropWhile)

lemma last_dropWhile_eq: "dropWhile P xs \<noteq> [] \<Longrightarrow> last (dropWhile P xs) = last xs"
  by (induction xs) (auto split: if_splits)

lemma trim_trim: "trim (trim s) = trim s"
proof -
  define t where "t = dropWhile is_space s"
  define u where "u = dropWhile is_space (rev t)"
  have ts: "trim s = rev u" by (simp add: trim_def t_def u_def)
  show ?thesis
  proof (cases "u = []")
    case True
    then have "trim s = []" by (simp add: ts)
    then show ?thesis by (simp only:) (simp add: trim_def)
  next
    case False
    have hu: "\<not> is_space (hd u)" using False hd_dropWhile_not unfolding u_def by blast
    have "last u = last (rev t)" using False last_dropWhile_eq unfolding u_def by blast
    moreover have "t \<noteq> []" using False by (auto simp: u_def)
    ultimately have "last u = hd t" by (simp add: last_rev)
    moreover have "\<not> is_space (hd t)" using \<open>t \<noteq> []\<close> hd_dropWhile_not unfolding t_def by blast
    ultimately have lu: "\<not> is_space (hd (rev u))" using False by (simp add: hd_rev)
    have "dropWhile is_space (rev u) = rev u" using lu by (intro dropWhile_id) simp
    moreover have "dropWhile is_space u = u" using hu by (intro dropWhile_id) simp
    ultimately have "trim (rev u) = rev u" by (simp add: trim_def [of "rev u"])
    then show ?thesis by (simp only: ts)
  qed
qed

lemma of_char_lt_256: "(of_char c :: nat) < 256"
  using of_char_mod_256 [of c, where ?'a = nat] mod_less_divisor [of 256 "of_char c"]
  by (metis zero_less_numeral)

lemma lower_char_eq_iff:
  assumes "97 \<le> (of_char l :: nat)" "(of_char l :: nat) \<le> 122"
  shows "lower_char c = l \<longleftrightarrow> either_case c l"
proof -
  have c: "(of_char c :: nat) < 256" by (rule of_char_lt_256)
  have eq: "c = l \<longleftrightarrow> (of_char c :: nat) = of_char l" by simp
  show ?thesis
    using assms c unfolding lower_char_def Let_def either_case_def eq
    by (auto simp: char_of_eq_iff take_bit_eq_mod)
qed

lemma toLowerCase_available: "toLowerCase s = ''available'' \<longleftrightarrow> available_variant s"
proof -
  have "toLowerCase s = t \<longleftrightarrow> list_all2 (\<lambda>c l. lower_char c = l) s t" for t
    unfolding toLowerCase_def by (induction s arbitrary: t) (auto simp: list_all2_Cons1)
  then show ?thesis
    by (simp add: available_variant_def list_all2_Cons2 lower_char_eq_iff)
qed

section \<open>The alias lookup\<close>

lemma all_strings_Inl: "all_strings rs = Inl e \<Longrightarrow> Inl e \<in> set rs"
  by (induction rs rule: all_strings.induct) (auto split: sum.splits)

lemma to_String_error: "to_String v = Inl e \<Longrightarrow> e = TypeError"
proof (induction v arbitrary: e rule: to_String.induct)
  case (6 xs)
  from "6.prems" have "all_strings (map (\<lambda>x. if nullish x then Inr [] else to_String x) xs) = Inl e"
    by (simp split: sum.splits)
  then have "Inl e \<in> set (map (\<lambda>x. if nullish x then Inr [] else to_String x) xs)"
    by (rule all_strings_Inl)
  then obtain x where "x \<in> set xs" "\<not> nullish x" "to_String x = Inl e"
    by (auto split: if_splits)
  then show ?case using "6.IH" by blast
qed (auto split: if_splits)

lemma unprintable_iff: "unprintable v \<longleftrightarrow> (\<exists>e. to_String v = Inl e)"
  using to_String_error by (auto simp: unprintable_def)

lemma printable_text: "\<not> unprintable v \<Longrightarrow> to_String v = Inr (text_of v)"
  by (cases "to_String v") (auto simp: unprintable_iff text_of_def)

lemma usable_cases:
  "usable v \<longleftrightarrow> v \<noteq> JUndefined \<and> v \<noteq> JNull \<and> (\<exists>s. to_String v = Inr s \<and> trim s \<noteq> [])"
  by (cases "to_String v") (auto simp: usable_def blank_def unprintable_iff trim_empty_iff)

lemma blank_cases:
  "blank v \<longleftrightarrow> v = JUndefined \<or> v = JNull \<or> (\<exists>s. to_String v = Inr s \<and> trim s = [])"
  by (cases "to_String v") (auto simp: blank_def trim_empty_iff)

lemma usable_text: "usable v \<Longrightarrow> to_String v = Inr (text_of v) \<and> trim (text_of v) \<noteq> []"
  by (auto simp: usable_cases text_of_def)

lemma first_usable_None_iff:
  "first_usable payload keys = None \<longleftrightarrow> (\<forall>k \<in> set keys. \<not> usable (get_prop payload k))"
  by (auto simp: first_usable_def find_None_iff)

lemma first_usable_Some_usable: "first_usable payload keys = Some v \<Longrightarrow> usable v"
  by (auto simp: first_usable_def find_Some_iff)

lemma pick_eq:
  "pick payload keys fallback
     = (if throws payload keys then Inl TypeError else Inr (selected payload keys fallback))"
proof (induction keys)
  case Nil
  then show ?case by (simp add: throws_def selected_def first_usable_def)
next
  case (Cons k keys)
  let ?v = "get_prop payload k"
  consider (b) "blank ?v" | (u) "unprintable ?v" "\<not> blank ?v" | (g) "usable ?v"
    by (auto simp: usable_def)
  then show ?case
  proof cases
    case b
    then have nu: "\<not> usable ?v" by (simp add: usable_def)
    have "pick payload (k # keys) fallback = pick payload keys fallback"
      using b by (auto simp: blank_cases Let_def)
    moreover have "throws payload (k # keys) = throws payload keys"
      using b by (simp add: throws_def)
    moreover have "selected payload (k # keys) fallback = selected payload keys fallback"
      using nu by (simp add: selected_def first_usable_def)
    ultimately show ?thesis using Cons by simp
  next
    case u
    then have "throws payload (k # keys)" by (simp add: throws_def)
    moreover have "pick payload (k # keys) fallback = Inl TypeError"
      using u by (auto simp: unprintable_def blank_def Let_def)
    ultimately show ?thesis by simp
  next
    case g
    then have nb: "\<not> blank ?v" and np: "\<not> unprintable ?v" by (simp_all add: usable_def)
    have "\<not> throws payload (k # keys)" using nb np by (simp add: throws_def)
    moreover have "selected payload (k # keys) fallback = ?v"
      using g by (simp add: selected_def first_usable_def)
    moreover have "pick payload (k # keys) fallback = Inr ?v"
      using g by (auto simp: usable_cases Let_def)
    ultimately show ?thesis by simp
  qed
qed

lemma selected_printable:
  "\<not> unprintable fallback \<Longrightarrow>
     to_String (selected payload keys fallback) = Inr (text_of (selected payload keys fallback))"
  by (auto simp: selected_def printable_text usable_text
           dest!: first_usable_Some_usable split: option.splits)

lemma String_pick_eq:
  "\<not> unprintable fallback \<Longrightarrow>
     String_pick payload keys fallback
       = (if throws payload keys then Inl TypeError
          else Inr (text_of (selected payload keys fallback)))"
  by (simp add: String_pick_def pick_eq selected_printable)

lemma flag_pick_eq:
  "flag_pick payload keys
     = (if throws payload keys then Inl TypeError
        else Inr (truthy (selected payload keys (JBool False))))"
  by (simp add: flag_pick_def pick_eq)

lemma all_blank_iff:
  "(\<forall>k \<in> set keys. blank (get_prop payload k))
     \<longleftrightarrow> \<not> throws payload keys \<and> first_usable payload keys = None"
proof (induction keys)
  case Nil
  then show ?case by (simp add: throws_def first_usable_def)
next
  case (Cons k keys)
  show ?case
  proof (cases "blank (get_prop payload k)")
    case True
    then have "throws payload (k # keys) = throws payload keys"
      and "first_usable payload (k # keys) = first_usable payload keys"
      by (simp_all add: throws_def first_usable_def usable_def)
    then show ?thesis using True Cons by simp
  next
    case False
    then show ?thesis
      by (auto simp: throws_def first_usable_def usable_def)
  qed
qed

lemma identity_text_empty_iff:
  "trim (text_of (selected payload keys (JStr ''''))) = [] \<longleftrightarrow> first_usable payload keys = None"
proof (cases "first_usable payload keys")
  case None
  then show ?thesis by (simp add: selected_def text_of_def trim_def)
next
  case (Some v)
  then show ?thesis
    using usable_text [OF first_usable_Some_usable [OF Some]] by (simp add: selected_def)
qed

lemma normalize_cases:
  "normalize payload =
     (if throws payload MAP_externalId then Inl (Thrown TypeError)
      else if first_usable payload MAP_externalId = None then Inl MissingIdentity
      else if \<exists>keys \<in> set PICKED. throws payload keys then Inl (Thrown TypeError)
      else Inr \<lparr> externalId = trim (text_of (selected payload MAP_externalId (JStr ''''))),
              name = trim (text_of (selected payload MAP_name (JStr ''Unnamed''))),
              statusRaw = toLowerCase (text_of (selected payload MAP_status (JStr ''available''))),
              species = text_of (selected payload MAP_species (JStr ''Dog'')),
              breed = text_of (selected payload MAP_breed (JStr '''')),
              age = text_of (selected payload MAP_age (JStr '''')),
              gender = text_of (selected payload MAP_gender (JStr '''')),
              size_v = text_of (selected payload MAP_size (JStr '''')),
              location = text_of (selected payload MAP_location (JStr '''')),
              adoptionFee = text_of (selected payload MAP_adoptionFee (JStr '''')),
              description = text_of (selected payload MAP_description (JStr '''')),
              imageUrl = text_of (selected payload MAP_imageUrl (JStr '''')),
              galleryUrls = gallery_of (gallery_value payload),
              good_with_kids = truthy (selected payload MAP_goodWithKids (JBool False)),
              good_with_dogs = truthy (selected payload MAP_goodWithDogs (JBool False)),
              good_with_cats = truthy (selected payload MAP_goodWithCats (JBool False)),
              house_trained = truthy (selected payload MAP_houseTrained (JBool False)),
              spayed_neutered = truthy (selected payload MAP_spayedNeutered (JBool False)),
              vaccinated = truthy (selected payload MAP_vaccinated (JBool False)),
              publishStatus =
                (if toLowerCase (text_of (selected payload MAP_status (JStr ''available''))) = ''available''
                 then ACTIVE else DRAFT) \<rparr>)"
proof -
  have p: "\<not> unprintable (JStr s)" for s by (simp add: unprintable_def)
  show ?thesis
    unfolding normalize_def and_then_def flag_pick_eq String_pick_eq [OF p] PICKED_def Let_def
    by (simp add: identity_text_empty_iff)
qed

section \<open>Properties of the record handler\<close>

text \<open>
  C8. Normalizing the input \<open>{ "Entry ID": "42", "Name": "Rex", "Status": "AVAILABLE",
  "Good With Kids": "true" }\<close> gives external id \<open>42\<close>, name \<open>Rex\<close>, status \<open>available\<close>,
  \<open>good_with_kids\<close> true and publication state Active; every other field takes its
  fallback.
\<close>

theorem normalize_example:
  "normalize (JObj [(''Entry ID'', JStr ''42''), (''Name'', JStr ''Rex''),
                    (''Status'', JStr ''AVAILABLE''), (''Good With Kids'', JStr ''true'')])
   = Inr \<lparr> externalId = ''42'', name = ''Rex'', statusRaw = ''available'',
            species = ''Dog'', breed = [], age = [], gender = [], size_v = [],
            location = [], adoptionFee = [], description = [], imageUrl = [],
            galleryUrls = [], good_with_kids = True, good_with_dogs = False,
            good_with_cats = False, house_trained = False,
            spayed_neutered = False, vaccinated = False,
            publishStatus = ACTIVE \<rparr>"
  by code_simp

lemma normalize_Inr:
  assumes "normalize payload = Inr n"
  shows "n = \<lparr> externalId = trim (text_of (selected payload MAP_externalId (JStr ''''))),
              name = trim (text_of (selected payload MAP_name (JStr ''Unnamed''))),
              statusRaw = toLowerCase (text_of (selected payload MAP_status (JStr ''available''))),
              species = text_of (selected payload MAP_species (JStr ''Dog'')),
              breed = text_of (selected payload MAP_breed (JStr '''')),
              age = text_of (selected payload MAP_age (JStr '''')),
              gender = text_of (selected payload MAP_gender (JStr '''')),
              size_v = text_of (selected payload MAP_size (JStr '''')),
              location = text_of (selected payload MAP_location (JStr '''')),
              adoptionFee = text_of (selected payload MAP_adoptionFee (JStr '''')),
              description = text_of (selected payload MAP_description (JStr '''')),
              imageUrl = text_of (selected payload MAP_imageUrl (JStr '''')),
              galleryUrls = gallery_of (gallery_value payload),
              good_with_kids = truthy (selected payload MAP_goodWithKids (JBool False)),
              good_with_dogs = truthy (selected payload MAP_goodWithDogs (JBool False)),
              good_with_cats = truthy (selected payload MAP_goodWithCats (JBool False)),
              house_trained = truthy (selected payload MAP_houseTrained (JBool False)),
              spayed_neutered = truthy (selected payload MAP_spayedNeutered (JBool False)),
              vaccinated = truthy (selected payload MAP_vaccinated (JBool False)),
              publishStatus =
                (if toLowerCase (text_of (selected payload MAP_status (JStr ''available''))) = ''available''
                 then ACTIVE else DRAFT) \<rparr>"
    and "first_usable payload MAP_externalId \<noteq> None"
    and "\<forall>keys \<in> set PICKED. \<not> throws payload keys"
  using assms unfolding normalize_cases [of payload] by (auto split: if_splits)

lemma normalize_Inr_iff:
  "(\<exists>n. normalize payload = Inr n)
     \<longleftrightarrow> first_usable payload MAP_externalId \<noteq> None \<and> (\<forall>keys \<in> set PICKED. \<not> throws payload keys)"
proof -
  have "MAP_externalId \<in> set PICKED" by (simp add: PICKED_def)
  then show ?thesis unfolding normalize_cases [of payload] by auto
qed

lemma normalize_MissingIdentity_iff:
  "normalize payload = Inl MissingIdentity
     \<longleftrightarrow> (\<forall>k \<in> set MAP_externalId. blank (get_prop payload k))"
  unfolding all_blank_iff normalize_cases [of payload] by auto

lemma selected_status_string:
  "text_of (selected payload MAP_status (JStr ''available'')) = status_string payload"
  by (simp add: selected_def status_string_def text_of_def split: option.splits)

text \<open>
  C1, as the code has it. The status string of a record is the string representation of
  its first usable status alias, and the fallback \<open>available\<close> when no status alias is
  usable. For every record whose normalization succeeds, the stored status is that string
  lowercased; the publication state is Active exactly when the string is a variant of
  \<open>available\<close> up to case, and Draft otherwise. A record whose status aliases are all
  absent or blank is therefore Active.
\<close>

theorem publication_state:
  assumes "normalize payload = Inr n"
  shows "to_String (selected payload MAP_status (JStr ''available'')) = Inr (status_string payload)
       \<and> statusRaw n = toLowerCase (status_string payload)
       \<and> (publishStatus n = ACTIVE) = available_variant (status_string payload)
       \<and> (publishStatus n = DRAFT) = (\<not> available_variant (status_string payload))
       \<and> (publishStatus n = ACTIVE) = (first_usable payload MAP_status = None
            \<or> available_variant (status_string payload))"
proof -
  have n: "statusRaw n = toLowerCase (status_string payload)"
    "publishStatus n = (if toLowerCase (status_string payload) = ''available'' then ACTIVE else DRAFT)"
    by (subst normalize_Inr(1) [OF assms], simp add: selected_status_string)+
  have fb: "available_variant (status_string payload)" if "first_usable payload MAP_status = None"
    using that by (simp add: status_string_def available_variant_def either_case_def)
  have "\<not> unprintable (JStr ''available'')" by (simp add: unprintable_def)
  then have s: "to_String (selected payload MAP_status (JStr ''available'')) = Inr (status_string payload)"
    using selected_printable [of "JStr ''available''" payload MAP_status]
    by (simp add: selected_status_string)
  show ?thesis
    using fb s by (auto simp: n toLowerCase_available)
qed

theorem publication_state_witness:
  "normalize rex_payload = Inr rex_record
   \<and> statusRaw rex_record = toLowerCase (status_string rex_payload)
   \<and> publishStatus rex_record = ACTIVE
   \<and> available_variant (status_string rex_payload)
   \<and> first_usable rex_payload MAP_status = Some (JStr ''AVAILABLE'')"
proof -
  have h: "normalize rex_payload = Inr rex_record" by code_simp
  have a: "publishStatus rex_record = ACTIVE" by code_simp
  have f: "first_usable rex_payload MAP_status = Some (JStr ''AVAILABLE'')" by code_simp
  from publication_state [OF h] a f h show ?thesis by simp
qed

text \<open>
  C1 as stated fails: a record with no status alias at all is published Active, not
  Draft.
\<close>

theorem absent_status_is_active:
  "first_usable no_status_payload MAP_status = None
   \<and> map_option publishStatus (case normalize no_status_payload of Inl e \<Rightarrow> None | Inr n \<Rightarrow> Some n)
       = Some ACTIVE"
  by code_simp

text \<open>
  C4, as the code has it. Normalization fails with \<open>MissingIdentity\<close> exactly when every
  identity alias is blank: absent, \<open>null\<close> or with a string representation of white
  space only. It succeeds exactly when an identity alias is usable and reading no field
  throws, and then the external id is trimmed and not empty; it throws when the first
  alias of a field that is not blank is unprintable (an object with a \<open>toString\<close> entry of
  its own, or an array that holds one). On \<open>MissingIdentity\<close> the handler answers 400, on a
  throw it answers 500, and in both cases it sends no request to the store: no upload and
  no upsert.
\<close>

theorem missing_identity:
  "(normalize payload = Inl MissingIdentity)
     = (\<forall>k \<in> set MAP_externalId. blank (get_prop payload k))
   \<and> (\<exists>n. normalize payload = Inr n)
     = (first_usable payload MAP_externalId \<noteq> None \<and> (\<forall>keys \<in> set PICKED. \<not> throws payload keys))
   \<and> (\<forall>n. normalize payload = Inr n \<longrightarrow> externalId n \<noteq> [] \<and> trim (externalId n) = externalId n)
   \<and> (\<forall>e. normalize payload = Inl (Thrown e) \<longrightarrow> e = TypeError \<and> (\<exists>keys \<in> set PICKED. throws payload keys))
   \<and> (http_method req = ''POST'' \<and> x_webhook_secret req = Some secret \<and> secret \<noteq> []
      \<longrightarrow> (normalize (if truthy (body req) then body req else JObj []) = Inl MissingIdentity
           \<longrightarrow> cognito_shopify_handler secret store req (sent, s)
                 = (Send 400 ''Missing external id (e.g., Entry ID)'', (sent, s)))
        \<and> (\<forall>e. normalize (if truthy (body req) then body req else JObj []) = Inl (Thrown e)
           \<longrightarrow> cognito_shopify_handler secret store req (sent, s) = (ServerError e, (sent, s))))"
proof -
  have 2: "externalId n \<noteq> [] \<and> trim (externalId n) = externalId n" if h: "normalize payload = Inr n" for n
  proof -
    have e: "externalId n = trim (text_of (selected payload MAP_externalId (JStr '''')))"
      by (subst normalize_Inr(1) [OF h]) simp
    show ?thesis
      using normalize_Inr(2) [OF h] by (simp add: e trim_trim identity_text_empty_iff)
  qed
  have 3: "e = TypeError \<and> (\<exists>keys \<in> set PICKED. throws payload keys)"
    if "normalize payload = Inl (Thrown e)" for e
  proof -
    have "MAP_externalId \<in> set PICKED" by (simp add: PICKED_def)
    then show ?thesis using that unfolding normalize_cases [of payload] by (auto split: if_splits)
  qed
  have 4: "cognito_shopify_handler secret store req (sent, s)
            = (Send 400 ''Missing external id (e.g., Entry ID)'', (sent, s))"
    if "normalize (if truthy (body req) then body req else JObj []) = Inl MissingIdentity"
       "http_method req = ''POST''" "x_webhook_secret req = Some secret" "secret \<noteq> []"
    using that by (simp add: cognito_shopify_handler_def)
  have 5: "cognito_shopify_handler secret store req (sent, s) = (ServerError e, (sent, s))"
    if "normalize (if truthy (body req) then body req else JObj []) = Inl (Thrown e)"
       "http_method req = ''POST''" "x_webhook_secret req = Some secret" "secret \<noteq> []" for e
    using that by (simp add: cognito_shopify_handler_def)
  show ?thesis
    using normalize_MissingIdentity_iff [of payload] normalize_Inr_iff [of payload] 2 3 4 5
    by blast
qed

theorem missing_identity_witness:
  "normalize rex_payload = Inr rex_record
   \<and> first_usable rex_payload MAP_externalId = Some (JStr ''42'')
   \<and> externalId rex_record = ''42'' \<and> trim (externalId rex_record) = externalId rex_record
   \<and> get_prop nameless_payload ''Entry ID'' = JStr ''  ''
   \<and> get_prop nameless_payload ''id'' = JNull
   \<and> normalize nameless_payload = Inl MissingIdentity
   \<and> cognito_shopify_handler ''s3cret'' down_store nameless_request ([], ())
       = (Send 400 ''Missing external id (e.g., Entry ID)'', ([], ()))
   \<and> normalize odd_identity_payload = Inl (Thrown TypeError)
   \<and> throws odd_identity_payload MAP_externalId"
proof -
  have h: "normalize rex_payload = Inr rex_record" by code_simp
  have e: "externalId rex_record = ''42''" by code_simp
  have u: "first_usable rex_payload MAP_externalId = Some (JStr ''42'')" by code_simp
  have a: "\<forall>k \<in> set MAP_externalId. blank (get_prop nameless_payload k)"
    by code_simp
  have g: "get_prop nameless_payload ''Entry ID'' = JStr ''  ''"
    "get_prop nameless_payload ''id'' = JNull" by code_simp+
  have b: "(if truthy (body nameless_request) then body nameless_request else JObj []) = nameless_payload"
    by code_simp
  have r: "http_method nameless_request = ''POST''"
    "x_webhook_secret nameless_request = Some ''s3cret''" "''s3cret'' \<noteq> []"
    by (simp_all add: nameless_request_def)
  have o: "normalize odd_identity_payload = Inl (Thrown TypeError)"
    "throws odd_identity_payload MAP_externalId" by code_simp+
  note t1 = missing_identity [of rex_payload nameless_request "''s3cret''" down_store "[]" "()"]
  note t2 = missing_identity [of nameless_payload nameless_request "''s3cret''" down_store "[]" "()"]
  have m: "normalize nameless_payload = Inl MissingIdentity" using t2 a by blast
  have "trim (externalId rex_record) = externalId rex_record" using t1 h by blast
  moreover have "cognito_shopify_handler ''s3cret'' down_store nameless_request ([], ())
       = (Send 400 ''Missing external id (e.g., Entry ID)'', ([], ()))"
    using t2 m b r by simp
  ultimately show ?thesis using h e u g m o by simp
qed

text \<open>
  C4 as stated fails: this record has a populated identity alias, and its normalization
  does not succeed, because converting its name throws; the handler answers 500 and sends
  nothing.
\<close>

theorem populated_identity_fails:
  "first_usable odd_name_payload MAP_externalId = Some (JStr ''42'')
   \<and> to_String (get_prop odd_name_payload ''Name'') = Inl TypeError
   \<and> normalize odd_name_payload = Inl (Thrown TypeError)
   \<and> cognito_shopify_handler ''s3cret'' down_store odd_name_request ([], ())
       = (ServerError TypeError, ([], ()))
   \<and> status_code (fst (cognito_shopify_handler ''s3cret'' down_store odd_name_request ([], ()))) = 500"
  by code_simp

lemma usable_truthy:
  "usable v \<Longrightarrow> truthy v = (v \<noteq> JBool False \<and> v \<noteq> JNum ''0'' \<and> v \<noteq> JNum ''NaN'')"
  by (cases v) (auto simp: usable_cases trim_def)

lemma truthy_selected_flag: "truthy (selected payload keys (JBool False)) = flag_value payload keys"
  by (auto simp: selected_def flag_value_def usable_truthy
           dest!: first_usable_Some_usable split: option.splits)

text \<open>
  C9. For every record whose normalization succeeds, each of the six boolean fields is
  false exactly when no alias of the field is usable or the selected value is the boolean
  \<open>false\<close> or a falsy number (\<open>0\<close>); every other selected value gives true, and so does
  every selected string, \<open>false\<close>, \<open>no\<close> and \<open>0\<close> among them.
\<close>

theorem boolean_fields:
  assumes "normalize payload = Inr n"
  shows "good_with_kids n = flag_value payload MAP_goodWithKids
       \<and> good_with_dogs n = flag_value payload MAP_goodWithDogs
       \<and> good_with_cats n = flag_value payload MAP_goodWithCats
       \<and> house_trained n = flag_value payload MAP_houseTrained
       \<and> spayed_neutered n = flag_value payload MAP_spayedNeutered
       \<and> vaccinated n = flag_value payload MAP_vaccinated
       \<and> (\<forall>keys \<in> set PICKED. flag_pick payload keys = Inr (flag_value payload keys))
       \<and> (\<forall>keys \<in> set PICKED. \<forall>s. first_usable payload keys = Some (JStr s)
             \<longrightarrow> flag_pick payload keys = Inr True)"
proof -
  have p: "flag_pick payload keys = Inr (flag_value payload keys)" if "keys \<in> set PICKED" for keys
    using normalize_Inr(3) [OF assms] that by (simp add: flag_pick_eq truthy_selected_flag)
  have "flag_pick payload keys = Inr True"
    if "keys \<in> set PICKED" "first_usable payload keys = Some (JStr s)" for keys s
    using p [OF that(1)] that(2) by (simp add: flag_value_def)
  then show ?thesis
    using p by (subst (1 2 3 4 5 6) normalize_Inr(1) [OF assms]) (simp add: truthy_selected_flag)
qed

theorem boolean_fields_witness:
  "normalize flags_payload = Inr flags_record
   \<and> first_usable flags_payload MAP_goodWithKids = Some (JStr ''false'')
   \<and> first_usable flags_payload MAP_goodWithDogs = Some (JStr ''no'')
   \<and> first_usable flags_payload MAP_goodWithCats = Some (JStr ''0'')
   \<and> first_usable flags_payload MAP_houseTrained = Some (JNum ''0'')
   \<and> first_usable flags_payload MAP_spayedNeutered = None
   \<and> first_usable flags_payload MAP_vaccinated = Some (JBool False)
   \<and> good_with_kids flags_record \<and> good_with_dogs flags_record \<and> good_with_cats flags_record
   \<and> \<not> house_trained flags_record \<and> \<not> spayed_neutered flags_record \<and> \<not> vaccinated flags_record
   \<and> flag_pick flags_payload MAP_goodWithKids = Inr True"
proof -
  have h: "normalize flags_payload = Inr flags_record" by code_simp
  have f: "first_usable flags_payload MAP_goodWithKids = Some (JStr ''false'')"
    "first_usable flags_payload MAP_goodWithDogs = Some (JStr ''no'')"
    "first_usable flags_payload MAP_goodWithCats = Some (JStr ''0'')"
    "first_usable flags_payload MAP_houseTrained = Some (JNum ''0'')"
    "first_usable flags_payload MAP_spayedNeutered = None"
    "first_usable flags_payload MAP_vaccinated = Some (JBool False)"
    by code_simp+
  have k: "MAP_goodWithKids \<in> set PICKED" by (simp add: PICKED_def)
  from boolean_fields [OF h] f h k show ?thesis
    by (simp add: flag_value_def)
qed


section \<open>The gallery\<close>

lemma gallery_of_nullish: "nullish v \<Longrightarrow> gallery_of v = []"
  by (cases v) auto

lemma gallery_value_first_present:
  "gallery_of (gallery_value payload) = gallery_of (first_present payload MAP_gallery)"
  by (simp add: gallery_value_def first_present_def MAP_gallery_def Let_def gallery_of_nullish)

lemma string_urls_http: "u \<in> set (string_urls xs) \<Longrightarrow> is_http u"
  by (induction xs rule: string_urls.induct) (auto split: if_splits)

lemma gallery_of_http: "u \<in> set (gallery_of g) \<Longrightarrow> is_http u"
  by (cases g) (auto dest: string_urls_http split: if_splits)

text \<open>
  C10. The gallery is computed from the first gallery alias that is neither \<open>undefined\<close>
  nor \<open>null\<close>: a string without a comma gives the empty gallery, also when it is a URL; a
  gallery that is not empty comes from an array or from a string with a comma; and a
  first alias that is a string without a comma, the empty string among them, gives the
  empty gallery whatever the later aliases hold.
\<close>

theorem gallery_source:
  assumes "normalize payload = Inr n"
  shows "galleryUrls n = gallery_of (first_present payload MAP_gallery)
       \<and> (\<forall>s. CHR '','' \<notin> set s \<longrightarrow> gallery_of (JStr s) = [])
       \<and> (galleryUrls n \<noteq> [] \<longrightarrow>
            (\<exists>xs. first_present payload MAP_gallery = JArr xs)
            \<or> (\<exists>s. first_present payload MAP_gallery = JStr s \<and> CHR '','' \<in> set s))
       \<and> (\<forall>s. get_prop payload ''Gallery Urls'' = JStr s \<and> CHR '','' \<notin> set s \<longrightarrow> galleryUrls n = [])"
proof -
  have g: "galleryUrls n = gallery_of (first_present payload MAP_gallery)"
    by (subst normalize_Inr(1) [OF assms]) (simp add: gallery_value_first_present)
  have c: "(\<exists>xs. v = JArr xs) \<or> (\<exists>s. v = JStr s \<and> CHR '','' \<in> set s)" if "gallery_of v \<noteq> []" for v
    using that by (cases v) (auto split: if_splits)
  have f: "first_present payload MAP_gallery = JStr s" if "get_prop payload ''Gallery Urls'' = JStr s" for s
    using that by (simp add: first_present_def MAP_gallery_def)
  show ?thesis
    using c [of "first_present payload MAP_gallery"] f by (auto simp: g)
qed

theorem gallery_source_witness:
  "normalize single_url_payload = Inr single_url_record
   \<and> get_prop single_url_payload ''Gallery Urls'' = JStr ''https://img.example/a.jpg''
   \<and> is_http ''https://img.example/a.jpg''
   \<and> CHR '','' \<notin> set ''https://img.example/a.jpg''
   \<and> galleryUrls single_url_record = []
   \<and> normalize blank_gallery_payload = Inr blank_gallery_record
   \<and> get_prop blank_gallery_payload ''Gallery Urls'' = JStr ''''
   \<and> get_prop blank_gallery_payload ''Gallery'' = JArr [JStr ''https://img.example/a.jpg'']
   \<and> galleryUrls blank_gallery_record = []"
proof -
  have h1: "normalize single_url_payload = Inr single_url_record" by code_simp
  have h2: "normalize blank_gallery_payload = Inr blank_gallery_record" by code_simp
  have g1: "get_prop single_url_payload ''Gallery Urls'' = JStr ''https://img.example/a.jpg''"
    by code_simp
  have g2: "get_prop blank_gallery_payload ''Gallery Urls'' = JStr ''''"
    "get_prop blank_gallery_payload ''Gallery'' = JArr [JStr ''https://img.example/a.jpg'']"
    by code_simp+
  have u: "is_http ''https://img.example/a.jpg''" "CHR '','' \<notin> set ''https://img.example/a.jpg''"
    by code_simp+
  have "galleryUrls single_url_record = []"
    using gallery_source [OF h1] g1 u(2) by blast
  moreover have "galleryUrls blank_gallery_record = []"
    using gallery_source [OF h2, THEN conjunct2, THEN conjunct2, THEN conjunct2] g2(1) by auto
  ultimately show ?thesis using h1 h2 g1 g2 u by simp
qed

text \<open>
  C6, as the code has it. Reading a field through \<open>pick\<close> throws when the first alias of
  the field that is not blank is unprintable; otherwise its value is the first usable
  alias in the declared order, else the declared fallback, and that value has a string
  representation. For every record whose normalization succeeds no field throws, the
  identity and the name are the trimmed string representation of their value, the status
  the lowercased one, the text fields the string representation itself, the boolean
  fields the truth value. The gallery is not read through \<open>pick\<close>: it is computed from the
  first alias that is neither \<open>undefined\<close> nor \<open>null\<close>.
\<close>

theorem alias_priority:
  "pick payload keys fallback
     = (if throws payload keys then Inl TypeError else Inr (selected payload keys fallback))
   \<and> (\<not> unprintable fallback \<longrightarrow>
        to_String (selected payload keys fallback) = Inr (text_of (selected payload keys fallback)))
   \<and> (normalize payload = Inr n \<longrightarrow>
       (\<forall>keys \<in> set PICKED. \<not> throws payload keys)
       \<and> n = \<lparr> externalId = trim (text_of (selected payload MAP_externalId (JStr ''''))),
             name = trim (text_of (selected payload MAP_name (JStr ''Unnamed''))),
             statusRaw = toLowerCase (text_of (selected payload MAP_status (JStr ''available''))),
             species = text_of (selected payload MAP_species (JStr ''Dog'')),
             breed = text_of (selected payload MAP_breed (JStr '''')),
             age = text_of (selected payload MAP_age (JStr '''')),
             gender = text_of (selected payload MAP_gender (JStr '''')),
             size_v = text_of (selected payload MAP_size (JStr '''')),
             location = text_of (selected payload MAP_location (JStr '''')),
             adoptionFee = text_of (selected payload MAP_adoptionFee (JStr '''')),
             description = text_of (selected payload MAP_description (JStr '''')),
             imageUrl = text_of (selected payload MAP_imageUrl (JStr '''')),
             galleryUrls = gallery_of (first_present payload MAP_gallery),
             good_with_kids = truthy (selected payload MAP_goodWithKids (JBool False)),
             good_with_dogs = truthy (selected payload MAP_goodWithDogs (JBool False)),
             good_with_cats = truthy (selected payload MAP_goodWithCats (JBool False)),
             house_trained = truthy (selected payload MAP_houseTrained (JBool False)),
             spayed_neutered = truthy (selected payload MAP_spayedNeutered (JBool False)),
             vaccinated = truthy (selected payload MAP_vaccinated (JBool False)),
             publishStatus =
               (if toLowerCase (text_of (selected payload MAP_status (JStr ''available''))) = ''available''
                then ACTIVE else DRAFT) \<rparr>)"
proof -
  have "n = \<lparr> externalId = trim (text_of (selected payload MAP_externalId (JStr ''''))),
             name = trim (text_of (selected payload MAP_name (JStr ''Unnamed''))),
             statusRaw = toLowerCase (text_of (selected payload MAP_status (JStr ''available''))),
             species = text_of (selected payload MAP_species (JStr ''Dog'')),
             breed = text_of (selected payload MAP_breed (JStr '''')),
             age = text_of (selected payload MAP_age (JStr '''')),
             gender = text_of (selected payload MAP_gender (JStr '''')),
             size_v = text_of (selected payload MAP_size (JStr '''')),
             location = text_of (selected payload MAP_location (JStr '''')),
             adoptionFee = text_of (selected payload MAP_adoptionFee (JStr '''')),
             description = text_of (selected payload MAP_description (JStr '''')),
             imageUrl = text_of (selected payload MAP_imageUrl (JStr '''')),
             galleryUrls = gallery_of (first_present payload MAP_gallery),
             good_with_kids = truthy (selected payload MAP_goodWithKids (JBool False)),
             good_with_dogs = truthy (selected payload MAP_goodWithDogs (JBool False)),
             good_with_cats = truthy (selected payload MAP_goodWithCats (JBool False)),
             house_trained = truthy (selected payload MAP_houseTrained (JBool False)),
             spayed_neutered = truthy (selected payload MAP_spayedNeutered (JBool False)),
             vaccinated = truthy (selected payload MAP_vaccinated (JBool False)),
             publishStatus =
               (if toLowerCase (text_of (selected payload MAP_status (JStr ''available''))) = ''available''
                then ACTIVE else DRAFT) \<rparr>"
    if h: "normalize payload = Inr n"
    using normalize_Inr(1) [OF h]
    by (simp only: gallery_value_first_present)
  then show ?thesis
    using normalize_Inr(3) [of payload n] pick_eq [of payload keys fallback]
      selected_printable [of fallback payload keys]
    by blast
qed

theorem alias_priority_witness:
  "normalize rex_payload = Inr rex_record
   \<and> \<not> throws rex_payload MAP_name
   \<and> selected rex_payload MAP_externalId (JStr '''') = JStr ''42''
   \<and> selected rex_payload MAP_name (JStr ''Unnamed'') = JStr ''Rex''
   \<and> selected rex_payload MAP_species (JStr ''Dog'') = JStr ''Dog''
   \<and> pick rex_payload MAP_name (JStr ''Unnamed'') = Inr (JStr ''Rex'')
   \<and> to_String (selected rex_payload MAP_name (JStr ''Unnamed'')) = Inr ''Rex''
   \<and> externalId rex_record = ''42'' \<and> name rex_record = ''Rex'' \<and> species rex_record = ''Dog''"
proof -
  have h: "normalize rex_payload = Inr rex_record" by code_simp
  have s: "selected rex_payload MAP_externalId (JStr '''') = JStr ''42''"
    "selected rex_payload MAP_name (JStr ''Unnamed'') = JStr ''Rex''"
    "selected rex_payload MAP_species (JStr ''Dog'') = JStr ''Dog''"
    by code_simp+
  have nt: "\<not> throws rex_payload MAP_name" by code_simp
  have up: "\<not> unprintable (JStr ''Unnamed'')" by code_simp
  have tx: "text_of (JStr ''42'') = ''42''" "text_of (JStr ''Rex'') = ''Rex''" "text_of (JStr ''Dog'') = ''Dog''"
    by (simp_all add: text_of_def)
  note t = alias_priority [of rex_payload MAP_name "JStr ''Unnamed''" rex_record]
  have p: "pick rex_payload MAP_name (JStr ''Unnamed'') = Inr (JStr ''Rex'')"
    using t s nt by simp
  have q: "to_String (selected rex_payload MAP_name (JStr ''Unnamed'')) = Inr ''Rex''"
    using t up by (simp add: s tx)
  have n: "rex_record = \<lparr> externalId = trim (text_of (selected rex_payload MAP_externalId (JStr ''''))),
             name = trim (text_of (selected rex_payload MAP_name (JStr ''Unnamed''))),
             statusRaw = toLowerCase (text_of (selected rex_payload MAP_status (JStr ''available''))),
             species = text_of (selected rex_payload MAP_species (JStr ''Dog'')),
             breed = text_of (selected rex_payload MAP_breed (JStr '''')),
             age = text_of (selected rex_payload MAP_age (JStr '''')),
             gender = text_of (selected rex_payload MAP_gender (JStr '''')),
             size_v = text_of (selected rex_payload MAP_size (JStr '''')),
             location = text_of (selected rex_payload MAP_location (JStr '''')),
             adoptionFee = text_of (selected rex_payload MAP_adoptionFee (JStr '''')),
             description = text_of (selected rex_payload MAP_description (JStr '''')),
             imageUrl = text_of (selected rex_payload MAP_imageUrl (JStr '''')),
             galleryUrls = gallery_of (first_present rex_payload MAP_gallery),
             good_with_kids = truthy (selected rex_payload MAP_goodWithKids (JBool False)),
             good_with_dogs = truthy (selected rex_payload MAP_goodWithDogs (JBool False)),
             good_with_cats = truthy (selected rex_payload MAP_goodWithCats (JBool False)),
             house_trained = truthy (selected rex_payload MAP_houseTrained (JBool False)),
             spayed_neutered = truthy (selected rex_payload MAP_spayedNeutered (JBool False)),
             vaccinated = truthy (selected rex_payload MAP_vaccinated (JBool False)),
             publishStatus =
               (if toLowerCase (text_of (selected rex_payload MAP_status (JStr ''available''))) = ''available''
                then ACTIVE else DRAFT) \<rparr>"
    using t h by blast
  have t42: "trim ''42'' = ''42''" and tRex: "trim ''Rex'' = ''Rex''" by code_simp+
  have "externalId rex_record = ''42''" by (subst n) (simp add: s tx t42)
  moreover have "name rex_record = ''Rex''" by (subst n) (simp add: s tx tRex)
  moreover have "species rex_record = ''Dog''" by (subst n) (simp add: s tx)
  ultimately show ?thesis using h s p q nt by simp
qed

text \<open>
  C6 as stated fails on the gallery: the first usable gallery alias of this record is the
  array under \<open>Gallery\<close>, which would give one URL, and the normalized gallery is empty,
  because the empty string under \<open>Gallery Urls\<close> is taken.
\<close>

theorem gallery_ignores_first_usable:
  "first_usable blank_gallery_payload MAP_gallery = Some (JArr [JStr ''https://img.example/a.jpg''])
   \<and> gallery_of (JArr [JStr ''https://img.example/a.jpg'']) = [''https://img.example/a.jpg'']
   \<and> gallery_value blank_gallery_payload = JStr ''''
   \<and> map_option galleryUrls (case normalize blank_gallery_payload of Inl e \<Rightarrow> None | Inr n \<Rightarrow> Some n)
       = Some []"
  by code_simp


section \<open>Requests sent by the record handler\<close>

lemma gql_eq:
  "gql store rq (sent, s) = (gql_result (fst (store s rq)), (sent @ [rq], snd (store s rq)))"
  by (simp add: gql_def split: prod.splits)

lemma upload_or_null_eq:
  "\<exists>u. upload_or_null store url (sent, s) = (u, (sent @ [FileCreate url], snd (store s (FileCreate url))))"
  by (auto simp: upload_or_null_def uploadExternalImage_def gql_eq Let_def split: sum.splits)

lemma gallery_loop_eq:
  "\<exists>ids' s'. gallery_loop store urls ids (sent, s) = (ids', (sent @ map FileCreate (filter is_http urls), s'))
      \<and> length ids' \<le> length ids + length urls"
proof (induction urls arbitrary: ids sent s)
  case Nil
  then show ?case by simp
next
  case (Cons url urls)
  show ?case
  proof (cases "is_http url")
    case False
    then show ?thesis using Cons [of ids sent s] by auto
  next
    case True
    obtain u where u: "upload_or_null store url (sent, s)
        = (u, (sent @ [FileCreate url], snd (store s (FileCreate url))))"
      using upload_or_null_eq [of store url sent s] by blast
    define ids1 where "ids1 = (case u of None \<Rightarrow> ids | Some (fid, purl) \<Rightarrow> if truthy fid then ids @ [fid] else ids)"
    have l: "length ids1 \<le> length ids + 1"
      by (auto simp: ids1_def split: option.splits)
    have step: "gallery_loop store (url # urls) ids (sent, s)
        = gallery_loop store urls ids1 (sent @ [FileCreate url], snd (store s (FileCreate url)))"
      using True by (auto simp: u ids1_def split: option.splits)
    from Cons [of ids1 "sent @ [FileCreate url]" "snd (store s (FileCreate url))"] l True
    show ?thesis unfolding step by auto
  qed
qed

lemma upload_gallery_eq:
  "\<exists>fs s'. upload_gallery store urls (sent, s)
       = (fs, (sent @ map FileCreate (filter is_http (take 12 urls)), s'))
     \<and> ids_within 12 fs
     \<and> (\<forall>f \<in> set fs. mf_key f = ''gallery'')"
proof (cases "urls = []")
  case True
  then show ?thesis by (simp add: upload_gallery_def)
next
  case False
  obtain ids' s' where g: "gallery_loop store (take 12 urls) [] (sent, s)
       = (ids', (sent @ map FileCreate (filter is_http (take 12 urls)), s'))"
    and l: "length ids' \<le> length ([] :: jsval list) + length (take 12 urls)"
    using gallery_loop_eq [of store "take 12 urls" "[]" sent s] by blast
  from l have "length ids' \<le> 12" by simp
  then show ?thesis using False by (simp add: upload_gallery_def g)
qed



lemma filter_take_http: "\<forall>u \<in> set urls. is_http u \<Longrightarrow> filter is_http (take k urls) = take k urls"
  by (metis filter_True in_set_takeD)

text \<open>
  C5. For every normalized gallery, the gallery step sends one upload request for each of
  its first 12 URLs, in their order, and nothing else; the gallery field it pushes, when
  it pushes one, holds at most 12 file ids.
\<close>

theorem gallery_cap:
  assumes "normalize payload = Inr n"
  shows "requests (upload_gallery store (galleryUrls n) (sent, s))
           = sent @ map FileCreate (take 12 (galleryUrls n))
       \<and> length (take 12 (galleryUrls n)) \<le> 12
       \<and> ids_within 12 (fst (upload_gallery store (galleryUrls n) (sent, s)))"
proof -
  have "galleryUrls n = gallery_of (gallery_value payload)"
    by (subst normalize_Inr(1) [OF assms]) simp
  then have "\<forall>u \<in> set (galleryUrls n). is_http u"
    by (simp add: gallery_of_http)
  then have f: "filter is_http (take 12 (galleryUrls n)) = take 12 (galleryUrls n)"
    by (rule filter_take_http)
  obtain fs s' where "upload_gallery store (galleryUrls n) (sent, s)
       = (fs, (sent @ map FileCreate (filter is_http (take 12 (galleryUrls n))), s'))"
    and "ids_within 12 fs"
    using upload_gallery_eq [of store "galleryUrls n" sent s] by blast
  then show ?thesis by (simp add: requests_def f)
qed

theorem gallery_cap_witness:
  "normalize gallery20_payload = Inr gallery20_record
   \<and> length (galleryUrls gallery20_record) = 20
   \<and> requests (upload_gallery files_store (galleryUrls gallery20_record) ([], 0))
       = map FileCreate (take 12 urls20)
   \<and> length (requests (upload_gallery files_store (galleryUrls gallery20_record) ([], 0))) = 12
   \<and> ids_within 12 (fst (upload_gallery files_store (galleryUrls gallery20_record) ([], 0)))"
proof -
  have h: "normalize gallery20_payload = Inr gallery20_record" by code_simp
  have g: "galleryUrls gallery20_record = urls20" by (simp add: gallery20_record_def)
  have l: "length urls20 = 20" by (simp add: urls20_def)
  from gallery_cap [OF h, of files_store "[]" 0] h g l show ?thesis by simp
qed



section \<open>The store helper\<close>

text \<open>
  C2, as the code has it. A call through \<open>gql\<close> of the two TypeScript handlers fails
  exactly when \<open>fetch\<close> rejects, the body is not JSON, or the status is outside 200 to
  299; a response with a status in that range is returned as it is, whatever its
  \<open>errors\<close>, for the handler to read. The \<open>gql\<close> of the JavaScript files returns every
  parsed body, whatever the status.
\<close>

theorem gql_failure:
  "(\<exists>e. gql_result r = Inl e)
     = (case r of Rejected \<Rightarrow> True | Response status b \<Rightarrow> \<not> ok status \<or> b = None)
   \<and> (ok status \<longrightarrow> gql_result (Response status (Some json)) = Inr json)
   \<and> gql_js_result (Response status (Some json)) = Inr json
   \<and> gql store rq (sent, s) = (gql_result (fst (store s rq)), (sent @ [rq], snd (store s rq)))"
proof -
  have "(\<exists>e. gql_result r = Inl e)
     = (case r of Rejected \<Rightarrow> True | Response status b \<Rightarrow> \<not> ok status \<or> b = None)"
    by (cases r rule: gql_result.cases) auto
  then show ?thesis by (simp add: gql_eq)
qed

theorem gql_failure_witness:
  "\<not> ok 503
   \<and> gql_result (Response 503 (Some (JObj []))) = Inl (ShopifyGraphQLError (HttpStatus 503))
   \<and> ok 200
   \<and> gql_result (Response 200 (Some errors_body)) = Inr errors_body
   \<and> gql_js_result (Response 200 (Some errors_body)) = Inr errors_body
   \<and> gql errors_store (GetDefinition ''animal'') ([], ())
       = (Inr errors_body, ([GetDefinition ''animal''], ()))"
proof -
  have o: "\<not> ok 503" "ok 200" by (simp_all add: ok_def)
  have e: "errors_store () (GetDefinition ''animal'') = (Response 200 (Some errors_body), ())"
    by (simp add: errors_store_def)
  have m: "gql_result (Response 503 (Some (JObj []))) = Inl (ShopifyGraphQLError (HttpStatus 503))"
    by code_simp
  note t1 = gql_failure [of "Response 503 (Some (JObj []))" 200 errors_body errors_store
                            "GetDefinition ''animal''" "[]" "()"]
  from t1 o e m show ?thesis by simp
qed

text \<open>
  C2 as stated fails: a response with status 200, a non-empty \<open>errors\<close> array and \<open>data\<close> is
  not a failure of \<open>gql\<close>, and the handler reads the \<open>data\<close> and answers 200 with the id;
  and the \<open>gql\<close> of the JavaScript files returns the body of a response with status 500.
\<close>

theorem errors_read_as_success:
  "get_prop errors_body ''errors'' = JArr [JObj [(''message'', JStr ''Throttled'')]]
   \<and> gql_result (Response 200 (Some errors_body)) = Inr errors_body
   \<and> fst (cognito_shopify_handler ''s3cret'' errors_store rex_request ([], ()))
       = Synced (JStr ''gid://Metaobject/1'') ''42'' ACTIVE
   \<and> status_code (fst (cognito_shopify_handler ''s3cret'' errors_store rex_request ([], ()))) = 200
   \<and> gql_js_result (Response 500 (Some errors_body)) = Inr errors_body"
  by code_simp

section \<open>Properties of the schema handler\<close>

lemma toCreate_keys:
  "map fd_key (toCreate catalog keys) = filter (\<lambda>k. JStr k \<notin> set keys) (map fd_key catalog)"
  by (simp add: toCreate_def filter_map comp_def)

lemma toCreate_empty_iff:
  "toCreate catalog keys = [] \<longleftrightarrow> (\<forall>f \<in> set catalog. JStr (fd_key f) \<in> set keys)"
  by (simp add: toCreate_def filter_empty_conv)

lemma reconcile_existing:
  assumes "gql_result (fst (store s (GetDefinition ''animal''))) = Inr defResp"
    and "truthy (definition_of defResp)"
    and "existingKeys (definition_of defResp) = Inr keys"
  shows "toCreate catalog keys = [] \<Longrightarrow>
           reconcile catalog store (sent, s)
             = (UpToDate, (sent @ [GetDefinition ''animal''], snd (store s (GetDefinition ''animal''))))"
    and "toCreate catalog keys \<noteq> [] \<Longrightarrow>
           requests (reconcile catalog store (sent, s))
             = sent @ [GetDefinition ''animal'',
                       UpdateDefinition (get_prop (definition_of defResp) ''id'') (toCreate catalog keys) []]"
  using assms
  by (simp_all add: reconcile_def gql_eq definition_of_def requests_def Let_def split: sum.splits)

lemma char_of_48: "char_of (48 :: nat) = CHR ''0''"
  by code_simp

lemma key_field_json: "get_prop (field_json f) ''key'' = JStr (fd_key f)"
  by (simp add: field_json_def)

lemma not_nullish_field_json: "\<not> nullish (field_json f)"
  by (simp add: field_json_def)

lemma accepting_get:
  "gql_result (fst (accepting_store st (GetDefinition ''animal'')))
     = Inr (JObj [(''data'', JObj [(''metaobjectDefinitionByType'',
                   (case st of None \<Rightarrow> JNull | Some fs \<Rightarrow> definition_json fs))])])"
  "snd (accepting_store st (GetDefinition ''animal'')) = st"
  by (simp_all add: ok_def)

lemma accepting_definition:
  "definition_of (JObj [(''data'', JObj [(''metaobjectDefinitionByType'', d)])]) = d"
  by (simp add: definition_of_def)

lemma existingKeys_definition_json:
  "\<forall>f \<in> set fs. \<not> nullish f \<Longrightarrow>
     existingKeys (definition_json fs) = Inr (map (\<lambda>f. get_prop f ''key'') fs)"
  by (simp add: existingKeys_def definition_json_def)

lemma accepting_noop:
  assumes "\<forall>f \<in> set fs. \<not> nullish f"
    and "\<forall>f \<in> set catalog. JStr (fd_key f) \<in> set (map (\<lambda>f. get_prop f ''key'') fs)"
  shows "reconcile catalog accepting_store (sent, Some fs)
           = (UpToDate, (sent @ [GetDefinition ''animal''], Some fs))"
proof -
  have e: "toCreate catalog (map (\<lambda>f. get_prop f ''key'') fs) = []"
    using assms(2) by (simp only: toCreate_empty_iff)
  have t: "truthy (definition_of (JObj [(''data'', JObj [(''metaobjectDefinitionByType'', definition_json fs)])]))"
    by (simp add: accepting_definition definition_json_def)
  have k: "existingKeys (definition_of (JObj [(''data'', JObj [(''metaobjectDefinitionByType'', definition_json fs)])]))
             = Inr (map (\<lambda>f. get_prop f ''key'') fs)"
    using assms(1) by (simp only: accepting_definition existingKeys_definition_json)
  have g: "gql_result (fst (accepting_store (Some fs) (GetDefinition ''animal'')))
     = Inr (JObj [(''data'', JObj [(''metaobjectDefinitionByType'', definition_json fs)])])"
    by (simp add: ok_def)
  show ?thesis
    using reconcile_existing(1) [where store = accepting_store and s = "Some fs" and sent = sent, OF g t k e] by (simp only: accepting_get(2))
qed

lemma accepting_first:
  assumes "case st of None \<Rightarrow> True | Some fs \<Rightarrow> \<forall>f \<in> set fs. \<not> nullish f"
  shows "\<exists>r sent1 fs1. reconcile catalog accepting_store (sent, st) = (r, (sent1, Some fs1))
           \<and> (\<forall>f \<in> set fs1. \<not> nullish f)
           \<and> (\<forall>f \<in> set catalog. JStr (fd_key f) \<in> set (map (\<lambda>f. get_prop f ''key'') fs1))"
proof (cases st)
  case None
  have "reconcile catalog accepting_store (sent, None)
      = (Created (definition_json []),
         (sent @ [GetDefinition ''animal'', CreateDefinition catalog], Some (map field_json catalog)))"
    by (simp add: reconcile_def gql_eq ok_def Let_def char_of_48)
  then show ?thesis
    unfolding None by (auto simp: key_field_json not_nullish_field_json image_iff)
next
  case (Some fs)
  then have wf: "\<forall>f \<in> set fs. \<not> nullish f" using assms by simp
  define keys where "keys = map (\<lambda>f. get_prop f ''key'') fs"
  have t: "truthy (definition_of (JObj [(''data'', JObj [(''metaobjectDefinitionByType'', definition_json fs)])]))"
    by (simp add: accepting_definition definition_json_def)
  have k: "existingKeys (definition_of (JObj [(''data'', JObj [(''metaobjectDefinitionByType'', definition_json fs)])]))
             = Inr keys"
    using wf unfolding keys_def by (simp only: accepting_definition existingKeys_definition_json)
  have g: "gql_result (fst (accepting_store (Some fs) (GetDefinition ''animal'')))
     = Inr (JObj [(''data'', JObj [(''metaobjectDefinitionByType'', definition_json fs)])])"
    by (simp add: ok_def)
  show ?thesis
  proof (cases "toCreate catalog keys = []")
    case True
    have "reconcile catalog accepting_store (sent, Some fs)
           = (UpToDate, (sent @ [GetDefinition ''animal''], Some fs))"
      using reconcile_existing(1) [where store = accepting_store and s = "Some fs" and sent = sent, OF g t k True] by (simp only: accepting_get(2))
    moreover have "\<forall>f \<in> set catalog. JStr (fd_key f) \<in> set (map (\<lambda>f. get_prop f ''key'') fs)"
      using True unfolding keys_def by (simp only: toCreate_empty_iff)
    ultimately show ?thesis unfolding Some using wf by blast
  next
    case False
    have r: "reconcile catalog accepting_store (sent, Some fs)
        = (CreatedFields (map fd_key (toCreate catalog keys)),
           (sent @ [GetDefinition ''animal'',
                    UpdateDefinition (JStr ''gid://MetaobjectDefinition/1'') (toCreate catalog keys) []],
            Some (fs @ map field_json (toCreate catalog keys))))"
      using False wf
      by (simp add: reconcile_def gql_eq ok_def Let_def existingKeys_definition_json keys_def char_of_48
            definition_json_def [of fs, symmetric])
         (simp add: definition_json_def)
    have c: "JStr (fd_key f) \<in> set (map (\<lambda>f. get_prop f ''key'') (fs @ map field_json (toCreate catalog keys)))"
      if f: "f \<in> set catalog" for f
    proof (cases "JStr (fd_key f) \<in> set keys")
      case True
      then show ?thesis by (simp add: keys_def)
    next
      case False
      with f have "fd_key f \<in> set (map fd_key (toCreate catalog keys))"
        unfolding toCreate_keys by simp
      then show ?thesis by (auto simp: key_field_json image_iff)
    qed
    have "\<forall>f \<in> set (fs @ map field_json (toCreate catalog keys)). \<not> nullish f"
      using wf by (auto simp: not_nullish_field_json)
    with r c show ?thesis unfolding Some by blast
  qed
qed

lemma reconcile_malformed:
  assumes "gql_result (fst (store s (GetDefinition ''animal''))) = Inr defResp"
    and "truthy (definition_of defResp)"
    and "existingKeys (definition_of defResp) = Inl e"
  shows "reconcile catalog store (sent, s)
           = (ServerError e, (sent @ [GetDefinition ''animal''], snd (store s (GetDefinition ''animal''))))"
  using assms
  by (simp add: reconcile_def gql_eq definition_of_def Let_def split: sum.splits)

text \<open>
  C3. When the store answers the lookup with an existing definition, the keys of the
  fields the reconciler submits are exactly the catalog keys that no existing field has,
  in catalog order. When there is none, the answer is \<open>up-to-date\<close> and the lookup is the
  only request; otherwise the only other request is one update that creates those fields
  and updates none (no request edits or deletes a field); a definition whose fields cannot
  be read ends the call after the lookup. Hence, on a store that accepts what it is sent,
  a second run after a first one is \<open>up-to-date\<close> and sends the lookup only.
\<close>

theorem reconcile_additive:
  "(gql_result (fst (store s (GetDefinition ''animal''))) = Inr defResp
      \<and> truthy (definition_of defResp)
    \<longrightarrow> (case existingKeys (definition_of defResp) of
           Inl e \<Rightarrow>
             reconcile catalog store (sent, s)
               = (ServerError e, (sent @ [GetDefinition ''animal''], snd (store s (GetDefinition ''animal''))))
         | Inr keys \<Rightarrow>
             map fd_key (toCreate catalog keys) = filter (\<lambda>k. JStr k \<notin> set keys) (map fd_key catalog)
             \<and> (if toCreate catalog keys = []
                then reconcile catalog store (sent, s)
                       = (UpToDate, (sent @ [GetDefinition ''animal''], snd (store s (GetDefinition ''animal''))))
                else requests (reconcile catalog store (sent, s))
                       = sent @ [GetDefinition ''animal'',
                                 UpdateDefinition (get_prop (definition_of defResp) ''id'')
                                   (toCreate catalog keys) []])))
   \<and> ((case st of None \<Rightarrow> True | Some fs \<Rightarrow> \<forall>f \<in> set fs. \<not> nullish f)
    \<longrightarrow> second_run catalog accepting_store (sent, st)
          = (UpToDate, (requests (reconcile catalog accepting_store (sent, st)) @ [GetDefinition ''animal''],
                        snd (snd (reconcile catalog accepting_store (sent, st))))))"
proof -
  have 1: "case existingKeys (definition_of defResp) of
           Inl e \<Rightarrow>
             reconcile catalog store (sent, s)
               = (ServerError e, (sent @ [GetDefinition ''animal''], snd (store s (GetDefinition ''animal''))))
         | Inr keys \<Rightarrow>
             map fd_key (toCreate catalog keys) = filter (\<lambda>k. JStr k \<notin> set keys) (map fd_key catalog)
             \<and> (if toCreate catalog keys = []
                then reconcile catalog store (sent, s)
                       = (UpToDate, (sent @ [GetDefinition ''animal''], snd (store s (GetDefinition ''animal''))))
                else requests (reconcile catalog store (sent, s))
                       = sent @ [GetDefinition ''animal'',
                                 UpdateDefinition (get_prop (definition_of defResp) ''id'')
                                   (toCreate catalog keys) []])"
    if g: "gql_result (fst (store s (GetDefinition ''animal''))) = Inr defResp"
      and t: "truthy (definition_of defResp)"
  proof (cases "existingKeys (definition_of defResp)")
    case (Inl e)
    show ?thesis
      using reconcile_malformed [where store = store and s = s and sent = sent, OF g t Inl]
      by (simp add: Inl)
  next
    case (Inr keys)
    show ?thesis
      using reconcile_existing [where store = store and s = s and sent = sent, OF g t Inr]
      by (simp add: Inr toCreate_keys)
  qed
  have 2: "second_run catalog accepting_store (sent, st)
          = (UpToDate, (requests (reconcile catalog accepting_store (sent, st)) @ [GetDefinition ''animal''],
                        snd (snd (reconcile catalog accepting_store (sent, st)))))"
    if wf: "case st of None \<Rightarrow> True | Some fs \<Rightarrow> \<forall>f \<in> set fs. \<not> nullish f"
  proof -
    obtain r sent1 fs1 where r: "reconcile catalog accepting_store (sent, st) = (r, (sent1, Some fs1))"
      and w1: "\<forall>f \<in> set fs1. \<not> nullish f"
      and k1: "\<forall>f \<in> set catalog. JStr (fd_key f) \<in> set (map (\<lambda>f. get_prop f ''key'') fs1)"
      using accepting_first [OF wf, of catalog sent] by blast
    show ?thesis
      by (simp add: second_run_def r requests_def accepting_noop [OF w1 k1])
  qed
  show ?thesis using 1 2 by blast
qed

theorem reconcile_additive_witness:
  "gql_result (fst (accepting_store (Some two_fields) (GetDefinition ''animal'')))
     = Inr (JObj [(''data'', JObj [(''metaobjectDefinitionByType'', definition_json two_fields)])])
   \<and> existingKeys (definition_json two_fields) = Inr [JStr ''name'', JStr ''status'']
   \<and> map fd_key (toCreate FIELDS [JStr ''name'', JStr ''status''])
       = [''species'', ''breed'', ''age'', ''gender'', ''size'', ''location'', ''adoption_fee'',
          ''good_with_kids'', ''good_with_dogs'', ''good_with_cats'', ''house_trained'',
          ''spayed_neutered'', ''vaccinated'', ''description'', ''image'', ''gallery'', ''external_id'']
   \<and> requests (reconcile FIELDS accepting_store ([], Some two_fields))
       = [GetDefinition ''animal'',
          UpdateDefinition (JStr ''gid://MetaobjectDefinition/1'')
            (toCreate FIELDS [JStr ''name'', JStr ''status'']) []]
   \<and> second_run FIELDS accepting_store ([], Some two_fields)
       = (UpToDate,
          ([GetDefinition ''animal'',
            UpdateDefinition (JStr ''gid://MetaobjectDefinition/1'')
              (toCreate FIELDS [JStr ''name'', JStr ''status'']) [],
            GetDefinition ''animal''],
           snd (snd (reconcile FIELDS accepting_store ([], Some two_fields)))))
   \<and> fst (second_run FIELDS accepting_store ([], None)) = UpToDate"
proof -
  define resp where "resp = JObj [(''data'', JObj [(''metaobjectDefinitionByType'', definition_json two_fields)])]"
  have g: "gql_result (fst (accepting_store (Some two_fields) (GetDefinition ''animal''))) = Inr resp"
    by (simp add: ok_def resp_def)
  have d: "definition_of resp = definition_json two_fields"
    by (simp add: resp_def accepting_definition)
  have t: "truthy (definition_of resp)" by (simp add: d definition_json_def)
  have k: "existingKeys (definition_json two_fields) = Inr [JStr ''name'', JStr ''status'']"
    by code_simp
  have i: "get_prop (definition_json two_fields) ''id'' = JStr ''gid://MetaobjectDefinition/1''"
    by code_simp
  have f: "filter (\<lambda>k. JStr k \<notin> set [JStr ''name'', JStr ''status'']) (map fd_key FIELDS)
       = [''species'', ''breed'', ''age'', ''gender'', ''size'', ''location'', ''adoption_fee'',
          ''good_with_kids'', ''good_with_dogs'', ''good_with_cats'', ''house_trained'',
          ''spayed_neutered'', ''vaccinated'', ''description'', ''image'', ''gallery'', ''external_id'']"
    by code_simp
  have wf: "case Some two_fields of None \<Rightarrow> True | Some fs \<Rightarrow> \<forall>f \<in> set fs. \<not> nullish f"
    by code_simp
  note th = reconcile_additive [where store = accepting_store and s = "Some two_fields"
      and defResp = resp and catalog = FIELDS and sent = "[]" and st = "Some two_fields"]
  from th g t have a: "map fd_key (toCreate FIELDS [JStr ''name'', JStr ''status''])
        = filter (\<lambda>k. JStr k \<notin> set [JStr ''name'', JStr ''status'']) (map fd_key FIELDS)"
    and b: "if toCreate FIELDS [JStr ''name'', JStr ''status''] = []
            then reconcile FIELDS accepting_store ([], Some two_fields)
                   = (UpToDate, ([] @ [GetDefinition ''animal''],
                        snd (accepting_store (Some two_fields) (GetDefinition ''animal''))))
            else requests (reconcile FIELDS accepting_store ([], Some two_fields))
                   = [] @ [GetDefinition ''animal'',
                           UpdateDefinition (get_prop (definition_of resp) ''id'')
                             (toCreate FIELDS [JStr ''name'', JStr ''status'']) []]"
    by (simp_all add: d k)
  from th wf have c: "second_run FIELDS accepting_store ([], Some two_fields)
          = (UpToDate, (requests (reconcile FIELDS accepting_store ([], Some two_fields)) @ [GetDefinition ''animal''],
                        snd (snd (reconcile FIELDS accepting_store ([], Some two_fields)))))"
    by blast
  have ne: "toCreate FIELDS [JStr ''name'', JStr ''status''] \<noteq> []"
    using a f by auto
  have rq: "requests (reconcile FIELDS accepting_store ([], Some two_fields))
       = [GetDefinition ''animal'',
          UpdateDefinition (JStr ''gid://MetaobjectDefinition/1'')
            (toCreate FIELDS [JStr ''name'', JStr ''status'']) []]"
    using b ne by (simp add: d i)
  have n: "fst (second_run FIELDS accepting_store ([], None)) = UpToDate"
    using reconcile_additive [where store = accepting_store and s = "Some two_fields"
      and defResp = resp and catalog = FIELDS and sent = "[]" and st = None]
    by simp
  show ?thesis
    using g k a f rq c n by (simp add: resp_def)
qed

end
